theory Spec2Isabelle
  imports Main "HOL-Library.AList" "HOL-Library.Sublist"
begin

section \<open>Python values and exceptions\<close>

text \<open>
  The environment manager (\<^verbatim>\<open>environment_manager.py\<close>) works on what \<^verbatim>\<open>json.loads\<close>
  returns: dynamically typed values. A dict is kept as the list of its items in
  insertion order; lookups read the first item with the key. Numbers are modelled as
  integers (no operation below depends on the value of a number, only on whether it is
  zero). Text is ASCII: a character outside ASCII is treated as neither a letter nor
  white space.
\<close>

datatype json =
    JNull
  | JBool bool
  | JNum int
  | JStr string
  | JArr "json list"
  | JObj "(string \<times> json) list"

text \<open>
  Exceptions are values. A \<^verbatim>\<open>RuntimeError\<close> or \<^verbatim>\<open>ValueError\<close> raised by the
  source carries which \<^verbatim>\<open>raise\<close> statement produced it (the message text is built from
  the same data; the captured stderr is left out). The other classes are raised by the
  Python runtime and its library: \<open>PermissionError\<close> stands for every \<^verbatim>\<open>OSError\<close>
  other than \<^verbatim>\<open>FileNotFoundError\<close>, and \<open>ValueError EmbeddedNull\<close> is the
  \<^verbatim>\<open>ValueError\<close> that \<^verbatim>\<open>subprocess\<close> raises on an argument with a NUL character.
\<close>

datatype exn =
    RuntimeError msg
  | ValueError msg
  | KeyError
  | JSONDecodeError
  | TypeError
  | AttributeError
  | IndexError
  | FileNotFoundError
  | PermissionError
  | UnicodeDecodeError
  | UnboundLocalError
and msg =
    CommandFailed "string list"
  | CommandNotFound "string list"
  | EmbeddedNull
  | SaveFailed
  | NameRequired
  | BackendNotAvailable string
  | TemplateNotFound string
  | UnsupportedBackend string
  | EnvNotFound string
  | NotRunning string
  | NoTerminal
  | FailedToCreate exn
  | FailedToStart exn
  | FailedToStop exn
  | FailedToDelete exn
  | FailedToOpenShell exn

text \<open>Truth value of a Python object, as \<^verbatim>\<open>if x:\<close> tests it.\<close>

fun truthy :: "json \<Rightarrow> bool" where
  "truthy JNull = False"
| "truthy (JBool b) = b"
| "truthy (JNum n) = (n \<noteq> 0)"
| "truthy (JStr s) = (s \<noteq> [])"
| "truthy (JArr xs) = (xs \<noteq> [])"
| "truthy (JObj d) = (d \<noteq> [])"

text \<open>\<^verbatim>\<open>x[k]\<close> for a string key: only a dict accepts it.\<close>

fun subscript :: "json \<Rightarrow> string \<Rightarrow> exn + json" where
  "subscript (JObj d) k = (case map_of d k of None \<Rightarrow> Inl KeyError | Some v \<Rightarrow> Inr v)"
| "subscript _ k = Inl TypeError"

text \<open>\<^verbatim>\<open>x.get(k, default)\<close>: only a dict has the method.\<close>

fun dict_get :: "json \<Rightarrow> string \<Rightarrow> json \<Rightarrow> exn + json" where
  "dict_get (JObj d) k dflt = Inr (case map_of d k of None \<Rightarrow> dflt | Some v \<Rightarrow> v)"
| "dict_get _ k dflt = Inl AttributeError"

text \<open>
  \<^verbatim>\<open>x.get(k, default)\<close> where the key is itself a decoded value: a list or a dict is
  unhashable; \<^verbatim>\<open>None\<close>, a bool or a number is hashable and equals no string key.
\<close>

fun dict_get_json :: "json \<Rightarrow> json \<Rightarrow> json \<Rightarrow> exn + json" where
  "dict_get_json (JObj d) (JStr k) dflt = dict_get (JObj d) k dflt"
| "dict_get_json (JObj d) (JArr _) dflt = Inl TypeError"
| "dict_get_json (JObj d) (JObj _) dflt = Inl TypeError"
| "dict_get_json (JObj d) _ dflt = Inr dflt"
| "dict_get_json _ _ dflt = Inl AttributeError"

text \<open>\<^verbatim>\<open>x[0]\<close>.\<close>

fun index0 :: "json \<Rightarrow> exn + json" where
  "index0 (JArr []) = Inl IndexError"
| "index0 (JArr (x # _)) = Inr x"
| "index0 (JStr []) = Inl IndexError"
| "index0 (JStr (c # _)) = Inr (JStr [c])"
| "index0 (JObj d) = Inl KeyError"
| "index0 _ = Inl TypeError"

text \<open>\<^verbatim>\<open>for x in v\<close>: the elements of a list, the keys of a dict, the characters of a string.\<close>

fun iterate :: "json \<Rightarrow> exn + json list" where
  "iterate (JArr xs) = Inr xs"
| "iterate (JObj d) = Inr (map (\<lambda>kv. JStr (fst kv)) d)"
| "iterate (JStr s) = Inr (map (\<lambda>c. JStr [c]) s)"
| "iterate _ = Inl TypeError"

text \<open>\<^verbatim>\<open>v.items()\<close>.\<close>

fun items :: "json \<Rightarrow> exn + (string \<times> json) list" where
  "items (JObj d) = Inr d"
| "items _ = Inl AttributeError"

subsection \<open>String methods\<close>

definition lower_letters :: string where
  "lower_letters = ''abcdefghijklmnopqrstuvwxyz''"

definition upper_letters :: string where
  "upper_letters = ''ABCDEFGHIJKLMNOPQRSTUVWXYZ''"

definition is_cased :: "char \<Rightarrow> bool" where
  "is_cased c = (c \<in> set (lower_letters @ upper_letters))"

definition to_upper :: "char \<Rightarrow> char" where
  "to_upper c = (case map_of (zip lower_letters upper_letters) c of None \<Rightarrow> c | Some u \<Rightarrow> u)"

definition to_lower :: "char \<Rightarrow> char" where
  "to_lower c = (case map_of (zip upper_letters lower_letters) c of None \<Rightarrow> c | Some l \<Rightarrow> l)"

text \<open>
  \<^verbatim>\<open>str.title()\<close>: a character after a cased character is lowered, any other is
  title-cased.
\<close>

fun title_from :: "bool \<Rightarrow> string \<Rightarrow> string" where
  "title_from prev [] = []"
| "title_from prev (c # cs) =
     (if prev then to_lower c else to_upper c) # title_from (is_cased c) cs"

definition title :: "string \<Rightarrow> string" where
  "title s = title_from False s"

fun title_method :: "json \<Rightarrow> exn + string" where
  "title_method (JStr s) = Inr (title s)"
| "title_method _ = Inl AttributeError"

definition is_space :: "char \<Rightarrow> bool" where
  "is_space c = (c \<in> set [CHR 0x09, CHR 0x0A, CHR 0x0B, CHR 0x0C, CHR 0x0D,
                           CHR 0x1C, CHR 0x1D, CHR 0x1E, CHR 0x1F, CHR 0x20])"

definition strip :: "string \<Rightarrow> string" where
  "strip s = rev (dropWhile is_space (rev (dropWhile is_space s)))"

text \<open>\<^verbatim>\<open>s.split('\n')\<close>: always at least one piece.\<close>

fun split_nl :: "string \<Rightarrow> string list" where
  "split_nl [] = [[]]"
| "split_nl (c # cs) =
     (if c = CHR 0x0A then [] # split_nl cs
      else (case split_nl cs of [] \<Rightarrow> [[c]] | l # ls \<Rightarrow> (c # l) # ls))"

text \<open>The text after the first occurrence of a separator: \<^verbatim>\<open>s.split(sep, 1)[1]\<close>.\<close>

fun after_first :: "string \<Rightarrow> string \<Rightarrow> string option" where
  "after_first sep [] = (if sep = [] then Some [] else None)"
| "after_first sep (c # cs) =
     (if prefix sep (c # cs) then Some (drop (length sep) (c # cs)) else after_first sep cs)"

text \<open>\<^verbatim>\<open>sub in s\<close> on strings.\<close>

definition contains :: "string \<Rightarrow> string \<Rightarrow> bool" where
  "contains s sub = (after_first sub s \<noteq> None)"

section \<open>The outside world and the manager's state\<close>

text \<open>
  Every effect of the manager is an external command or a read or write of its own
  registry file \<^verbatim>\<open>environments.json\<close>. The outside world answers a command depending on
  the commands dispatched before it; \<^verbatim>\<open>json.loads\<close> and the table of
  \<^verbatim>\<open>EnvironmentTemplates\<close> are taken as given, so every result below holds for any
  decoder and any table, the ones of the source included.
\<close>

datatype response =
    Out string        \<comment> \<open>exit status 0, with the captured stdout\<close>
  | ExitNonZero       \<comment> \<open>\<^verbatim>\<open>CalledProcessError\<close>\<close>
  | NotFound          \<comment> \<open>\<^verbatim>\<open>FileNotFoundError\<close>: there is no such program\<close>
  | Denied            \<comment> \<open>\<^verbatim>\<open>PermissionError\<close> or another \<^verbatim>\<open>OSError\<close>: the program cannot be started\<close>
  | Undecodable bool  \<comment> \<open>the output is not valid text; the flag tells whether the exit status is 0\<close>

datatype write_outcome =
    Written
  | OpenFailed      \<comment> \<open>\<^verbatim>\<open>open(..., 'w')\<close> raises: the file is as before\<close>
  | WriteFailed     \<comment> \<open>the dump raises after the file was truncated\<close>

record template_entry =
  t_name :: string
  description :: string
  base_image :: string
  packages :: "string list"
  setup_script :: string

record sys =
  respond :: "string list list \<Rightarrow> string list \<Rightarrow> response"
  json_loads :: "string \<Rightarrow> json option"
  write_result :: "string list list \<Rightarrow> write_outcome"
  templates :: "(string \<times> template_entry) list"

text \<open>
  What the registry file holds: nothing that \<^verbatim>\<open>_load_environments_config\<close> can use
  (the file is missing, cannot be read, or is not JSON: all read as the empty dict),
  bytes that are not valid text (\<^verbatim>\<open>json.load\<close> then raises
  \<^verbatim>\<open>UnicodeDecodeError\<close>, which the handler for \<^verbatim>\<open>JSONDecodeError\<close> and
  \<^verbatim>\<open>IOError\<close> does not catch), or a JSON value.
\<close>

datatype registry =
    NoRegistry
  | BadEncoding
  | Registry json

text \<open>
  \<open>trace\<close> holds every command dispatched so far, oldest first: every call of
  \<^verbatim>\<open>subprocess\<close> that got as far as starting the program, whatever came of it.
\<close>

record state =
  trace :: "string list list"
  registry_file :: registry

type_synonym 'a result = "(exn + 'a) \<times> state"

definition load_environments_config :: "state \<Rightarrow> exn + json" where
  "load_environments_config s =
     (case registry_file s of
        NoRegistry \<Rightarrow> Inr (JObj [])
      | BadEncoding \<Rightarrow> Inl UnicodeDecodeError
      | Registry j \<Rightarrow> Inr j)"

definition save_environments_config :: "sys \<Rightarrow> json \<Rightarrow> state \<Rightarrow> unit result" where
  "save_environments_config y config s =
     (case write_result y (trace s) of
        Written \<Rightarrow> (Inr (), s\<lparr>registry_file := Registry config\<rparr>)
      | OpenFailed \<Rightarrow> (Inl (RuntimeError SaveFailed), s)
      | WriteFailed \<Rightarrow> (Inl (RuntimeError SaveFailed), s\<lparr>registry_file := NoRegistry\<rparr>))"

text \<open>
  \<^verbatim>\<open>subprocess.run\<close> refuses an argument with a NUL character before it starts
  anything. \<^verbatim>\<open>_run_command\<close> turns a non-zero exit and a missing program into
  \<^verbatim>\<open>RuntimeError\<close>; whatever else \<^verbatim>\<open>subprocess.run\<close> raises passes through it.
\<close>

definition has_nul :: "string list \<Rightarrow> bool" where
  "has_nul cmd = list_ex (\<lambda>arg. CHR 0x00 \<in> set arg) cmd"

definition run_command :: "sys \<Rightarrow> string list \<Rightarrow> state \<Rightarrow> string result" where
  "run_command y cmd s =
     (let s' = s\<lparr>trace := trace s @ [cmd]\<rparr> in
      if has_nul cmd then (Inl (ValueError EmbeddedNull), s)
      else
        case respond y (trace s) cmd of
          Out out \<Rightarrow> (Inr out, s')
        | ExitNonZero \<Rightarrow> (Inl (RuntimeError (CommandFailed cmd)), s')
        | NotFound \<Rightarrow> (Inl (RuntimeError (CommandNotFound cmd)), s')
        | Denied \<Rightarrow> (Inl PermissionError, s')
        | Undecodable ok \<Rightarrow> (Inl UnicodeDecodeError, s'))"

text \<open>
  \<^verbatim>\<open>_check_backend_available\<close> catches \<^verbatim>\<open>RuntimeError\<close> only: any other exception of
  the probe leaves it.
\<close>

definition probe_result :: "string result \<Rightarrow> bool result" where
  "probe_result r =
     (case r of
        (Inl (RuntimeError m), s') \<Rightarrow> (Inr False, s')
      | (Inl e, s') \<Rightarrow> (Inl e, s')
      | (Inr out, s') \<Rightarrow> (Inr True, s'))"

definition check_backend_available :: "sys \<Rightarrow> string \<Rightarrow> state \<Rightarrow> bool result" where
  "check_backend_available y backend s =
     (if backend = ''multipass'' then probe_result (run_command y [''multipass'', ''version''] s)
      else if backend = ''lxd'' then probe_result (run_command y [''lxc'', ''version''] s)
      else (Inr True, s))"

section \<open>Listing environments\<close>

record mount =
  host :: json
  guest :: string

record env =
  name :: json
  status :: string
  backend :: string
  ip :: json
  template :: json
  mounts :: "mount list"

definition not_available :: json where
  "not_available = JStr ''Not available''"

text \<open>
  \<^verbatim>\<open>config.get(name, {}).get("template", "Unknown")\<close>, where \<open>name\<close> is the value the
  backend reported.
\<close>

definition get_environment_template :: "state \<Rightarrow> json \<Rightarrow> exn + json" where
  "get_environment_template s nm =
     (case load_environments_config s of
        Inl e \<Rightarrow> Inl e
      | Inr config \<Rightarrow>
          (case dict_get_json config nm (JObj []) of
             Inl e \<Rightarrow> Inl e
           | Inr entry \<Rightarrow> dict_get entry ''template'' (JStr ''Unknown'')))"

fun build_mounts :: "(string \<times> json) list \<Rightarrow> exn + mount list" where
  "build_mounts [] = Inr []"
| "build_mounts ((guest_path, mount_data) # rest) =
     (case dict_get mount_data ''source_path'' (JStr ''Unknown'') of
        Inl e \<Rightarrow> Inl e
      | Inr h \<Rightarrow>
          (case build_mounts rest of
             Inl e \<Rightarrow> Inl e
           | Inr ms \<Rightarrow> Inr (\<lparr>host = h, guest = guest_path\<rparr> # ms)))"

definition mounts_of_info :: "json \<Rightarrow> string \<Rightarrow> exn + mount list" where
  "mounts_of_info info_data n =
     (case dict_get info_data ''info'' (JObj []) of
        Inl e \<Rightarrow> Inl e
      | Inr info \<Rightarrow>
     (case dict_get info n (JObj []) of
        Inl e \<Rightarrow> Inl e
      | Inr instance_info \<Rightarrow>
     (case dict_get instance_info ''mounts'' (JObj []) of
        Inl e \<Rightarrow> Inl e
      | Inr mount_info \<Rightarrow>
     (case items mount_info of
        Inl e \<Rightarrow> Inl e
      | Inr kvs \<Rightarrow> build_mounts kvs))))"

text \<open>The exceptions that the listing functions catch.\<close>

fun list_caught :: "exn \<Rightarrow> bool" where
  "list_caught (RuntimeError m) = True"
| "list_caught JSONDecodeError = True"
| "list_caught KeyError = True"
| "list_caught _ = False"

text \<open>
  An argument of a command has to be a string: \<^verbatim>\<open>subprocess.run\<close> raises
  \<^verbatim>\<open>TypeError\<close> on anything else before it starts a process, and
  \<^verbatim>\<open>_run_command\<close> does not catch it.
\<close>

definition get_multipass_mounts :: "sys \<Rightarrow> json \<Rightarrow> state \<Rightarrow> mount list result" where
  "get_multipass_mounts y nm s =
     (case nm of
        JStr n \<Rightarrow>
          (case run_command y [''multipass'', ''info'', n, ''--format'', ''json''] s of
             (Inl e, s') \<Rightarrow> (if list_caught e then Inr [] else Inl e, s')
           | (Inr out, s') \<Rightarrow>
               (case json_loads y out of
                  None \<Rightarrow> (Inr [], s')
                | Some info_data \<Rightarrow>
                    (case mounts_of_info info_data n of
                       Inl e \<Rightarrow> (if list_caught e then Inr [] else Inl e, s')
                     | Inr ms \<Rightarrow> (Inr ms, s'))))
      | _ \<Rightarrow> (Inl TypeError, s))"

text \<open>
  The parser of \<^verbatim>\<open>lxc config show\<close>: \<open>in_devices\<close> and \<open>current_device\<close> are the
  loop's variables, \<open>ms\<close> is the list \<^verbatim>\<open>mounts\<close> that it returns. The values bound to
  \<^verbatim>\<open>source\<close> and \<^verbatim>\<open>path\<close> are computed and dropped, as in the source.
\<close>

definition device_set :: "string option \<Rightarrow> bool" where
  "device_set current_device = (case current_device of None \<Rightarrow> False | Some d \<Rightarrow> d \<noteq> [])"

fun lxd_scan :: "string list \<Rightarrow> bool \<Rightarrow> string option \<Rightarrow> mount list \<Rightarrow> mount list" where
  "lxd_scan [] in_devices current_device ms = ms"
| "lxd_scan (line # lines) in_devices current_device ms =
     (if strip line = ''devices:'' then lxd_scan lines True current_device ms
      else if in_devices then
        (if prefix ''  '' line \<and> CHR '':'' \<in> set line \<and> \<not> prefix ''    '' line then
           lxd_scan lines in_devices (Some (filter (\<lambda>c. c \<noteq> CHR '':'') (strip line))) ms
         else if prefix ''    type: disk'' line \<and> device_set current_device then
           lxd_scan lines in_devices current_device ms
         else if prefix ''    source:'' line \<and> device_set current_device then
           (let source = map_option strip (after_first ''source:'' line)
            in lxd_scan lines in_devices current_device ms)
         else if prefix ''    path:'' line \<and> device_set current_device then
           (let path = map_option strip (after_first ''path:'' line)
            in lxd_scan lines in_devices current_device ms)
         else lxd_scan lines in_devices current_device ms)
      else lxd_scan lines in_devices current_device ms)"

definition get_lxd_mounts :: "sys \<Rightarrow> json \<Rightarrow> state \<Rightarrow> mount list result" where
  "get_lxd_mounts y nm s =
     (case nm of
        JStr n \<Rightarrow>
          (case run_command y [''lxc'', ''config'', ''show'', n] s of
             (Inl e, s') \<Rightarrow>
               (case e of RuntimeError m \<Rightarrow> (Inr [], s') | _ \<Rightarrow> (Inl e, s'))
           | (Inr out, s') \<Rightarrow> (Inr (lxd_scan (split_nl out) False None []), s'))
      | _ \<Rightarrow> (Inl TypeError, s))"

subsection \<open>Multipass instances\<close>

text \<open>
  \<^verbatim>\<open>instance.get("ipv4", ["Not available"])[0] if instance.get("ipv4") else "Not available"\<close>
\<close>

definition mp_ip :: "json \<Rightarrow> exn + json" where
  "mp_ip instance =
     (case dict_get instance ''ipv4'' JNull of
        Inl e \<Rightarrow> Inl e
      | Inr v \<Rightarrow>
          if truthy v then
            (case dict_get instance ''ipv4'' (JArr [not_available]) of
               Inl e \<Rightarrow> Inl e
             | Inr w \<Rightarrow> index0 w)
          else Inr not_available)"

text \<open>The record built for one instance; the fields are evaluated in the order written.\<close>

definition mp_env :: "sys \<Rightarrow> json \<Rightarrow> state \<Rightarrow> env result" where
  "mp_env y instance s =
     (case subscript instance ''name'' of
        Inl e \<Rightarrow> (Inl e, s)
      | Inr nm \<Rightarrow>
     (case subscript instance ''state'' of
        Inl e \<Rightarrow> (Inl e, s)
      | Inr st \<Rightarrow>
     (case title_method st of
        Inl e \<Rightarrow> (Inl e, s)
      | Inr stat \<Rightarrow>
     (case mp_ip instance of
        Inl e \<Rightarrow> (Inl e, s)
      | Inr ipv \<Rightarrow>
     (case get_environment_template s nm of
        Inl e \<Rightarrow> (Inl e, s)
      | Inr tpl \<Rightarrow>
     (case get_multipass_mounts y nm s of
        (Inl e, s') \<Rightarrow> (Inl e, s')
      | (Inr ms, s') \<Rightarrow>
          (Inr \<lparr>name = nm, status = stat, backend = ''multipass'', ip = ipv,
                template = tpl, mounts = ms\<rparr>, s')))))))"

text \<open>
  A loop over the instances appends to \<^verbatim>\<open>environments\<close>; when an instance raises, the
  records appended before it stay in the list. The result is the exception that ended
  the loop, if any, with the list as it is then.
\<close>

fun mp_loop :: "sys \<Rightarrow> json list \<Rightarrow> env list \<Rightarrow> state \<Rightarrow> (exn option \<times> env list) \<times> state" where
  "mp_loop y [] environments s = ((None, environments), s)"
| "mp_loop y (instance # rest) environments s =
     (case mp_env y instance s of
        (Inl e, s') \<Rightarrow> ((Some e, environments), s')
      | (Inr ev, s') \<Rightarrow> mp_loop y rest (environments @ [ev]) s')"

text \<open>The body of the first \<^verbatim>\<open>try\<close> of \<^verbatim>\<open>list_environments\<close>.\<close>

definition mp_section :: "sys \<Rightarrow> env list \<Rightarrow> state \<Rightarrow> (exn option \<times> env list) \<times> state" where
  "mp_section y environments s =
     (case run_command y [''multipass'', ''list'', ''--format'', ''json''] s of
        (Inl e, s1) \<Rightarrow> ((Some e, environments), s1)
      | (Inr out, s1) \<Rightarrow>
     (case json_loads y out of
        None \<Rightarrow> ((Some JSONDecodeError, environments), s1)
      | Some multipass_data \<Rightarrow>
     (case dict_get multipass_data ''list'' (JArr []) of
        Inl e \<Rightarrow> ((Some e, environments), s1)
      | Inr l \<Rightarrow>
     (case iterate l of
        Inl e \<Rightarrow> ((Some e, environments), s1)
      | Inr instances \<Rightarrow> mp_loop y instances environments s1))))"

subsection \<open>LXD containers\<close>

text \<open>
  The address scan. \<open>scan_addresses\<close> is the inner loop over one interface's
  addresses, \<open>scan_interfaces\<close> the outer loop over \<^verbatim>\<open>network.items()\<close>; the last
  argument is the variable \<^verbatim>\<open>ip\<close>.
\<close>

fun scan_addresses :: "json list \<Rightarrow> json \<Rightarrow> exn + json" where
  "scan_addresses [] ipv = Inr ipv"
| "scan_addresses (addr # rest) ipv =
     (case subscript addr ''family'' of
        Inl e \<Rightarrow> Inl e
      | Inr fam \<Rightarrow>
          if fam = JStr ''inet'' then subscript addr ''address''
          else scan_addresses rest ipv)"

fun scan_interfaces :: "(string \<times> json) list \<Rightarrow> json \<Rightarrow> exn + json" where
  "scan_interfaces [] ipv = Inr ipv"
| "scan_interfaces ((interface, data) # rest) ipv =
     (if interface \<noteq> ''lo'' then
        (case subscript data ''addresses'' of
           Inl e \<Rightarrow> Inl e
         | Inr addrs \<Rightarrow>
             if truthy addrs then
               (case iterate addrs of
                  Inl e \<Rightarrow> Inl e
                | Inr as \<Rightarrow>
                    (case scan_addresses as ipv of
                       Inl e \<Rightarrow> Inl e
                     | Inr ipv' \<Rightarrow>
                         if ipv' \<noteq> not_available then Inr ipv'
                         else scan_interfaces rest ipv'))
             else scan_interfaces rest ipv)
      else scan_interfaces rest ipv)"

definition lxd_ip :: "json \<Rightarrow> exn + json" where
  "lxd_ip container =
     (case subscript container ''state'' of
        Inl e \<Rightarrow> Inl e
      | Inr st \<Rightarrow>
          if truthy st then
            (case subscript st ''network'' of
               Inl e \<Rightarrow> Inl e
             | Inr net \<Rightarrow>
                 if truthy net then
                   (case items net of
                      Inl e \<Rightarrow> Inl e
                    | Inr ifs \<Rightarrow> scan_interfaces ifs not_available)
                 else Inr not_available)
          else Inr not_available)"

definition lxd_env :: "sys \<Rightarrow> json \<Rightarrow> state \<Rightarrow> env result" where
  "lxd_env y container s =
     (case subscript container ''status'' of
        Inl e \<Rightarrow> (Inl e, s)
      | Inr sv \<Rightarrow>
     (case title_method sv of
        Inl e \<Rightarrow> (Inl e, s)
      | Inr stat0 \<Rightarrow>
     (let stat = (if stat0 = ''Stopped'' then ''Stopped''
                  else if stat0 = ''Running'' then ''Running'' else stat0) in
     (case lxd_ip container of
        Inl e \<Rightarrow> (Inl e, s)
      | Inr ipv \<Rightarrow>
     (case subscript container ''name'' of
        Inl e \<Rightarrow> (Inl e, s)
      | Inr nm \<Rightarrow>
     (case get_environment_template s nm of
        Inl e \<Rightarrow> (Inl e, s)
      | Inr tpl \<Rightarrow>
     (case get_lxd_mounts y nm s of
        (Inl e, s') \<Rightarrow> (Inl e, s')
      | (Inr ms, s') \<Rightarrow>
          (Inr \<lparr>name = nm, status = stat, backend = ''lxd'', ip = ipv,
                template = tpl, mounts = ms\<rparr>, s'))))))))"

fun lxd_loop :: "sys \<Rightarrow> json list \<Rightarrow> env list \<Rightarrow> state \<Rightarrow> (exn option \<times> env list) \<times> state" where
  "lxd_loop y [] environments s = ((None, environments), s)"
| "lxd_loop y (container # rest) environments s =
     (case lxd_env y container s of
        (Inl e, s') \<Rightarrow> ((Some e, environments), s')
      | (Inr ev, s') \<Rightarrow> lxd_loop y rest (environments @ [ev]) s')"

text \<open>The body of the second \<^verbatim>\<open>try\<close>.\<close>

definition lxd_section :: "sys \<Rightarrow> env list \<Rightarrow> state \<Rightarrow> (exn option \<times> env list) \<times> state" where
  "lxd_section y environments s =
     (case run_command y [''lxc'', ''list'', ''--format'', ''json''] s of
        (Inl e, s1) \<Rightarrow> ((Some e, environments), s1)
      | (Inr out, s1) \<Rightarrow>
     (case json_loads y out of
        None \<Rightarrow> ((Some JSONDecodeError, environments), s1)
      | Some lxd_data \<Rightarrow>
     (case iterate lxd_data of
        Inl e \<Rightarrow> ((Some e, environments), s1)
      | Inr containers \<Rightarrow> lxd_loop y containers environments s1)))"

subsection \<open>Both backends\<close>

text \<open>
  \<^verbatim>\<open>list_environments\<close> is two blocks, one per backend: the probe, then the
  \<^verbatim>\<open>try\<close>. \<open>mp_part\<close> is the first block, \<open>lxd_part\<close> the second, which goes
  on with the list collected so far. An exception of a probe that is not a
  \<^verbatim>\<open>RuntimeError\<close>, or one that a \<^verbatim>\<open>try\<close> does not catch, leaves the function, and
  the list with it.
\<close>

definition mp_part :: "sys \<Rightarrow> state \<Rightarrow> env list result" where
  "mp_part y s =
     (case check_backend_available y ''multipass'' s of
        (Inl e, s1) \<Rightarrow> (Inl e, s1)
      | (Inr False, s1) \<Rightarrow> (Inr [], s1)
      | (Inr True, s1) \<Rightarrow>
          (case mp_section y [] s1 of
             ((None, envs), s2) \<Rightarrow> (Inr envs, s2)
           | ((Some e, envs), s2) \<Rightarrow> (if list_caught e then Inr envs else Inl e, s2)))"

definition lxd_part :: "sys \<Rightarrow> env list \<Rightarrow> state \<Rightarrow> env list result" where
  "lxd_part y environments s =
     (case check_backend_available y ''lxd'' s of
        (Inl e, s1) \<Rightarrow> (Inl e, s1)
      | (Inr False, s1) \<Rightarrow> (Inr environments, s1)
      | (Inr True, s1) \<Rightarrow>
          (case lxd_section y environments s1 of
             ((None, envs), s2) \<Rightarrow> (Inr envs, s2)
           | ((Some e, envs), s2) \<Rightarrow> (if list_caught e then Inr envs else Inl e, s2)))"

definition list_environments :: "sys \<Rightarrow> state \<Rightarrow> env list result" where
  "list_environments y s =
     (case mp_part y s of
        (Inl e, s2) \<Rightarrow> (Inl e, s2)
      | (Inr envs, s2) \<Rightarrow> lxd_part y envs s2)"

section \<open>The template table\<close>

text \<open>\<^verbatim>\<open>EnvironmentTemplates.get_template\<close>: \<^verbatim>\<open>self.templates.get(template_id)\<close>.\<close>

definition get_template :: "(string \<times> template_entry) list \<Rightarrow> string \<Rightarrow> template_entry option" where
  "get_template tbl template_id = map_of tbl template_id"

section \<open>Creating an environment\<close>

record mount_spec =
  m_host :: string
  m_guest :: string

text \<open>An absent key of \<^verbatim>\<open>resources\<close> is \<open>None\<close>; \<^verbatim>\<open>resources.get(k)\<close> is tested for truth.\<close>

record resources =
  cpus :: "int option"
  memory :: "string option"
  disk :: "string option"

record config =
  cfg_name :: string
  cfg_backend :: string
  cfg_template :: string
  cfg_mounts :: "mount_spec list"
  cfg_resources :: resources

text \<open>\<^verbatim>\<open>str(n)\<close> of an integer.\<close>

definition digit_char :: "nat \<Rightarrow> char" where
  "digit_char d = ''0123456789'' ! (d mod 10)"

fun str_nat :: "nat \<Rightarrow> string" where
  "str_nat n = (if n < 10 then [digit_char n] else str_nat (n div 10) @ [digit_char n])"

declare str_nat.simps [simp del]

definition str_int :: "int \<Rightarrow> string" where
  "str_int i = (if i < 0 then CHR ''-'' # str_nat (nat (- i)) else str_nat (nat i))"

text \<open>Sequencing: the second step runs only when the first has not raised.\<close>

definition and_then :: "'a result \<Rightarrow> ('a \<Rightarrow> state \<Rightarrow> 'b result) \<Rightarrow> 'b result" where
  "and_then r f = (case r of (Inl e, s) \<Rightarrow> (Inl e, s) | (Inr a, s) \<Rightarrow> f a s)"

definition exec_prefix :: "string \<Rightarrow> string \<Rightarrow> exn + string list" where
  "exec_prefix nm bk =
     (if bk = ''multipass'' then Inr [''multipass'', ''exec'', nm, ''--'']
      else if bk = ''lxd'' then Inr [''lxc'', ''exec'', nm, ''--'']
      else Inl (ValueError (UnsupportedBackend bk)))"

fun script_loop :: "sys \<Rightarrow> string list \<Rightarrow> string list \<Rightarrow> state \<Rightarrow> unit result" where
  "script_loop y exec_cmd [] s = (Inr (), s)"
| "script_loop y exec_cmd (line # script_lines) s =
     (if strip line \<noteq> [] then
        and_then (run_command y (exec_cmd @ [''bash'', ''-c'', strip line]) s)
          (\<lambda>_. script_loop y exec_cmd script_lines)
      else script_loop y exec_cmd script_lines s)"

definition setup_environment :: "sys \<Rightarrow> string \<Rightarrow> template_entry \<Rightarrow> string \<Rightarrow> state \<Rightarrow> unit result" where
  "setup_environment y nm tmpl bk s =
     (case exec_prefix nm bk of
        Inl e \<Rightarrow> (Inl e, s)
      | Inr exec_cmd \<Rightarrow>
          and_then (run_command y (exec_cmd @ [''apt'', ''update'']) s) (\<lambda>_ s1.
          and_then (if packages tmpl \<noteq> []
                    then run_command y (exec_cmd @ [''apt'', ''install'', ''-y''] @ packages tmpl) s1
                    else (Inr [], s1)) (\<lambda>_ s2.
          if setup_script tmpl \<noteq> []
          then script_loop y exec_cmd (split_nl (strip (setup_script tmpl))) s2
          else (Inr (), s2))))"

fun mp_mount_loop :: "sys \<Rightarrow> string \<Rightarrow> mount_spec list \<Rightarrow> state \<Rightarrow> unit result" where
  "mp_mount_loop y nm [] s = (Inr (), s)"
| "mp_mount_loop y nm (m # ms) s =
     and_then (run_command y [''multipass'', ''mount'', m_host m, nm @ '':'' @ m_guest m] s)
       (\<lambda>_. mp_mount_loop y nm ms)"

definition launch_flags :: "resources \<Rightarrow> string list" where
  "launch_flags rs =
     (case cpus rs of
        None \<Rightarrow> []
      | Some n \<Rightarrow> if n \<noteq> 0 then [''--cpus'', str_int n] else []) @
     (case memory rs of
        None \<Rightarrow> []
      | Some m \<Rightarrow> if m \<noteq> [] then [''--memory'', m] else []) @
     (case disk rs of
        None \<Rightarrow> []
      | Some d \<Rightarrow> if d \<noteq> [] then [''--disk'', d] else [])"

definition create_multipass_environment ::
    "sys \<Rightarrow> string \<Rightarrow> template_entry \<Rightarrow> mount_spec list \<Rightarrow> resources \<Rightarrow> state \<Rightarrow> unit result" where
  "create_multipass_environment y nm tmpl ms rs s =
     and_then (run_command y
                 ([''multipass'', ''launch''] @ launch_flags rs @ [base_image tmpl, ''--name'', nm]) s)
       (\<lambda>_ s1.
     and_then (run_command y
                 [''multipass'', ''exec'', nm, ''--'', ''cloud-init'', ''status'', ''--wait''] s1)
       (\<lambda>_ s2.
     and_then (mp_mount_loop y nm ms s2)
       (\<lambda>_. setup_environment y nm tmpl ''multipass'')))"

text \<open>\<^verbatim>\<open>for i, mount in enumerate(mounts)\<close>: the second argument is \<open>i\<close>.\<close>

fun lxd_mount_loop :: "sys \<Rightarrow> string \<Rightarrow> nat \<Rightarrow> mount_spec list \<Rightarrow> state \<Rightarrow> unit result" where
  "lxd_mount_loop y nm i [] s = (Inr (), s)"
| "lxd_mount_loop y nm i (m # ms) s =
     and_then (run_command y
                 [''lxc'', ''config'', ''device'', ''add'', nm, ''mount'' @ str_nat i, ''disk'',
                  ''source='' @ m_host m, ''path='' @ m_guest m] s)
       (\<lambda>_. lxd_mount_loop y nm (Suc i) ms)"

definition create_lxd_environment ::
    "sys \<Rightarrow> string \<Rightarrow> template_entry \<Rightarrow> mount_spec list \<Rightarrow> resources \<Rightarrow> state \<Rightarrow> unit result" where
  "create_lxd_environment y nm tmpl ms rs s =
     and_then (run_command y [''lxc'', ''launch'', base_image tmpl, nm] s)
       (\<lambda>_ s1.
     and_then (case cpus rs of
                 None \<Rightarrow> (Inr [], s1)
               | Some n \<Rightarrow>
                   if n \<noteq> 0
                   then run_command y [''lxc'', ''config'', ''set'', nm,
                                       ''limits.cpu='' @ str_int n] s1
                   else (Inr [], s1))
       (\<lambda>_ s2.
     and_then (case memory rs of
                 None \<Rightarrow> (Inr [], s2)
               | Some m \<Rightarrow>
                   if m \<noteq> []
                   then run_command y [''lxc'', ''config'', ''set'', nm,
                                       ''limits.memory='' @ m] s2
                   else (Inr [], s2))
       (\<lambda>_ s3.
     and_then (run_command y [''lxc'', ''exec'', nm, ''--'', ''cloud-init'', ''status'', ''--wait''] s3)
       (\<lambda>_ s4.
     and_then (lxd_mount_loop y nm 0 ms s4)
       (\<lambda>_. setup_environment y nm tmpl ''lxd'')))))"

text \<open>\<^verbatim>\<open>d[k] = v\<close>: only a dict accepts a string key.\<close>

fun set_item :: "json \<Rightarrow> string \<Rightarrow> json \<Rightarrow> exn + json" where
  "set_item (JObj d) k v = Inr (JObj (AList.update k v d))"
| "set_item _ k v = Inl TypeError"

definition registry_entry :: "string \<Rightarrow> string \<Rightarrow> json" where
  "registry_entry template_id bk =
     JObj [(''template'', JStr template_id), (''backend'', JStr bk), (''created'', JBool True)]"

text \<open>The provisioning branch: the first three statements of the \<^verbatim>\<open>try\<close>.\<close>

definition provision :: "sys \<Rightarrow> config \<Rightarrow> template_entry \<Rightarrow> state \<Rightarrow> unit result" where
  "provision y c tmpl s =
     (if cfg_backend c = ''multipass'' then
        create_multipass_environment y (cfg_name c) tmpl (cfg_mounts c) (cfg_resources c) s
      else if cfg_backend c = ''lxd'' then
        create_lxd_environment y (cfg_name c) tmpl (cfg_mounts c) (cfg_resources c) s
      else (Inl (ValueError (UnsupportedBackend (cfg_backend c))), s))"

text \<open>The rest of the \<^verbatim>\<open>try\<close>: the registry entry is read, set and saved.\<close>

definition record_environment :: "sys \<Rightarrow> config \<Rightarrow> state \<Rightarrow> unit result" where
  "record_environment y c s =
     (case load_environments_config s of
        Inl e \<Rightarrow> (Inl e, s)
      | Inr env_config \<Rightarrow>
          (case set_item env_config (cfg_name c)
                  (registry_entry (cfg_template c) (cfg_backend c)) of
             Inl e \<Rightarrow> (Inl e, s)
           | Inr env_config' \<Rightarrow> save_environments_config y env_config' s))"

definition create_environment :: "sys \<Rightarrow> config \<Rightarrow> state \<Rightarrow> unit result" where
  "create_environment y c s =
     (if cfg_name c = [] then (Inl (ValueError NameRequired), s)
      else
        (case check_backend_available y (cfg_backend c) s of
           (Inl e, s1) \<Rightarrow> (Inl e, s1)
         | (Inr False, s1) \<Rightarrow> (Inl (RuntimeError (BackendNotAvailable (cfg_backend c))), s1)
         | (Inr True, s1) \<Rightarrow>
             (case get_template (templates y) (cfg_template c) of
                None \<Rightarrow> (Inl (ValueError (TemplateNotFound (cfg_template c))), s1)
              | Some tmpl \<Rightarrow>
                  (case and_then (provision y c tmpl s1) (\<lambda>_. record_environment y c) of
                     (Inl e, s2) \<Rightarrow> (Inl (RuntimeError (FailedToCreate e)), s2)
                   | (Inr u, s2) \<Rightarrow> (Inr (), s2)))))"

section \<open>Starting, stopping and deleting\<close>

text \<open>
  \<^verbatim>\<open>next((e for e in environments if e["name"] == name), None)\<close>: the first listed
  record with the name.
\<close>

definition find_env :: "string \<Rightarrow> env list \<Rightarrow> env option" where
  "find_env n environments = find (\<lambda>e. name e = JStr n) environments"

text \<open>
  The handler \<^verbatim>\<open>except RuntimeError as e: raise RuntimeError(f"...: {e}")\<close>: a
  \<^verbatim>\<open>RuntimeError\<close> is wrapped, any other exception passes as it is.
\<close>

definition reraise :: "(exn \<Rightarrow> msg) \<Rightarrow> exn \<Rightarrow> exn" where
  "reraise wrap e = (case e of RuntimeError m \<Rightarrow> RuntimeError (wrap e) | _ \<Rightarrow> e)"

definition rewrap :: "(exn \<Rightarrow> msg) \<Rightarrow> 'a result \<Rightarrow> unit result" where
  "rewrap wrap r =
     (case r of
        (Inl e, s) \<Rightarrow> (Inl (reraise wrap e), s)
      | (Inr a, s) \<Rightarrow> (Inr (), s))"

definition start_environment :: "sys \<Rightarrow> string \<Rightarrow> state \<Rightarrow> unit result" where
  "start_environment y n s =
     (case list_environments y s of
        (Inl e, s1) \<Rightarrow> (Inl e, s1)
      | (Inr environments, s1) \<Rightarrow>
          (case find_env n environments of
             None \<Rightarrow> (Inl (RuntimeError (EnvNotFound n)), s1)
           | Some ev \<Rightarrow>
               if status ev = ''Running'' then (Inr (), s1)
               else rewrap FailedToStart
                      (if backend ev = ''multipass'' then run_command y [''multipass'', ''start'', n] s1
                       else if backend ev = ''lxd'' then run_command y [''lxc'', ''start'', n] s1
                       else (Inr [], s1))))"

definition stop_environment :: "sys \<Rightarrow> string \<Rightarrow> state \<Rightarrow> unit result" where
  "stop_environment y n s =
     (case list_environments y s of
        (Inl e, s1) \<Rightarrow> (Inl e, s1)
      | (Inr environments, s1) \<Rightarrow>
          (case find_env n environments of
             None \<Rightarrow> (Inl (RuntimeError (EnvNotFound n)), s1)
           | Some ev \<Rightarrow>
               if status ev = ''Stopped'' then (Inr (), s1)
               else rewrap FailedToStop
                      (if backend ev = ''multipass'' then run_command y [''multipass'', ''stop'', n] s1
                       else if backend ev = ''lxd'' then run_command y [''lxc'', ''stop'', n] s1
                       else (Inr [], s1))))"

text \<open>
  \<^verbatim>\<open>name in env_config\<close> and \<^verbatim>\<open>del env_config[name]\<close> on whatever the registry
  file holds.
\<close>

fun has_item :: "json \<Rightarrow> string \<Rightarrow> exn + bool" where
  "has_item (JObj d) k = Inr (map_of d k \<noteq> None)"
| "has_item (JArr xs) k = Inr (JStr k \<in> set xs)"
| "has_item (JStr t) k = Inr (contains t k)"
| "has_item _ k = Inl TypeError"

fun del_item :: "json \<Rightarrow> string \<Rightarrow> exn + json" where
  "del_item (JObj d) k = (if map_of d k \<noteq> None then Inr (JObj (AList.delete k d)) else Inl KeyError)"
| "del_item _ k = Inl TypeError"

text \<open>The commands that \<^verbatim>\<open>delete_environment\<close> sends to the owning backend.\<close>

definition backend_delete :: "sys \<Rightarrow> env \<Rightarrow> string \<Rightarrow> state \<Rightarrow> unit result" where
  "backend_delete y ev n s =
     (if backend ev = ''multipass'' then
        and_then (if status ev = ''Running''
                  then run_command y [''multipass'', ''stop'', n] s else (Inr [], s)) (\<lambda>_ s1.
        and_then (run_command y [''multipass'', ''delete'', n] s1) (\<lambda>_ s2.
        and_then (run_command y [''multipass'', ''purge''] s2) (\<lambda>_ s3. (Inr (), s3))))
      else if backend ev = ''lxd'' then
        and_then (if status ev = ''Running''
                  then run_command y [''lxc'', ''stop'', n] s else (Inr [], s)) (\<lambda>_ s1.
        and_then (run_command y [''lxc'', ''delete'', n] s1) (\<lambda>_ s2. (Inr (), s2)))
      else (Inr (), s))"

text \<open>\<^verbatim>\<open># Remove from configuration\<close>\<close>

definition forget_environment :: "sys \<Rightarrow> string \<Rightarrow> state \<Rightarrow> unit result" where
  "forget_environment y n s =
     (case load_environments_config s of
        Inl e \<Rightarrow> (Inl e, s)
      | Inr env_config \<Rightarrow>
          (case has_item env_config n of
             Inl e \<Rightarrow> (Inl e, s)
           | Inr False \<Rightarrow> (Inr (), s)
           | Inr True \<Rightarrow>
               (case del_item env_config n of
                  Inl e \<Rightarrow> (Inl e, s)
                | Inr env_config' \<Rightarrow> save_environments_config y env_config' s)))"

definition delete_environment :: "sys \<Rightarrow> string \<Rightarrow> state \<Rightarrow> unit result" where
  "delete_environment y n s =
     (case list_environments y s of
        (Inl e, s1) \<Rightarrow> (Inl e, s1)
      | (Inr environments, s1) \<Rightarrow>
          (case find_env n environments of
             None \<Rightarrow> (Inl (RuntimeError (EnvNotFound n)), s1)
           | Some ev \<Rightarrow>
               rewrap FailedToDelete
                 (and_then (backend_delete y ev n s1) (\<lambda>_. forget_environment y n))))"

section \<open>Opening a shell\<close>

definition terminals :: "string list list" where
  "terminals =
     [[''gnome-terminal'', ''--'', ''bash'', ''-c''],
      [''konsole'', ''-e'', ''bash'', ''-c''],
      [''xterm'', ''-e'', ''bash'', ''-c''],
      [''alacritty'', ''-e'', ''bash'', ''-c''],
      [''wezterm'', ''start'', ''bash'', ''-c'']]"

text \<open>
  The probes call \<^verbatim>\<open>subprocess.run\<close> themselves, with the output left as bytes: a
  probe that exits non-zero or is not found moves on to the next terminal, one that
  cannot be started for another reason raises. The result is \<^verbatim>\<open>terminal_cmd\<close>.
\<close>

fun probe_terminals :: "sys \<Rightarrow> string list list \<Rightarrow> state \<Rightarrow> string list option result" where
  "probe_terminals y [] s = (Inr None, s)"
| "probe_terminals y (term_cmd # rest) s =
     (let cmd = take 1 term_cmd @ [''--version''];
          s' = s\<lparr>trace := trace s @ [cmd]\<rparr> in
      case respond y (trace s) cmd of
        Out out \<Rightarrow> (Inr (Some term_cmd), s')
      | Undecodable True \<Rightarrow> (Inr (Some term_cmd), s')
      | Denied \<Rightarrow> (Inl PermissionError, s')
      | _ \<Rightarrow> probe_terminals y rest s')"

text \<open>
  \<^verbatim>\<open>subprocess.Popen\<close> does not wait for the terminal: it raises only when the
  program cannot be started.
\<close>

definition popen :: "sys \<Rightarrow> string list \<Rightarrow> state \<Rightarrow> unit result" where
  "popen y cmd s =
     (let s' = s\<lparr>trace := trace s @ [cmd]\<rparr> in
      if has_nul cmd then (Inl (ValueError EmbeddedNull), s)
      else
        case respond y (trace s) cmd of
          NotFound \<Rightarrow> (Inl FileNotFoundError, s')
        | Denied \<Rightarrow> (Inl PermissionError, s')
        | _ \<Rightarrow> (Inr (), s'))"

definition spawn_shell :: "sys \<Rightarrow> env \<Rightarrow> string \<Rightarrow> state \<Rightarrow> unit result" where
  "spawn_shell y ev n s =
     (case probe_terminals y terminals s of
        (Inl e, s1) \<Rightarrow> (Inl e, s1)
      | (Inr None, s1) \<Rightarrow> (Inl (RuntimeError NoTerminal), s1)
      | (Inr (Some terminal_cmd), s1) \<Rightarrow>
          if backend ev = ''multipass'' then
            popen y (terminal_cmd @ [(''multipass shell '' @ n) @ ''; exec bash'']) s1
          else if backend ev = ''lxd'' then
            popen y (terminal_cmd @ [(''lxc exec '' @ n @ '' -- /bin/bash'') @ ''; exec bash'']) s1
          else (Inl UnboundLocalError, s1))"

definition open_shell :: "sys \<Rightarrow> string \<Rightarrow> state \<Rightarrow> unit result" where
  "open_shell y n s =
     (case list_environments y s of
        (Inl e, s1) \<Rightarrow> (Inl e, s1)
      | (Inr environments, s1) \<Rightarrow>
          (case find_env n environments of
             None \<Rightarrow> (Inl (RuntimeError (EnvNotFound n)), s1)
           | Some ev \<Rightarrow>
               if status ev \<noteq> ''Running'' then (Inl (RuntimeError (NotRunning n)), s1)
               else
                 (case spawn_shell y ev n s1 of
                    (Inl e, s2) \<Rightarrow> (Inl (RuntimeError (FailedToOpenShell e)), s2)
                  | (Inr u, s2) \<Rightarrow> (Inr (), s2))))"

section \<open>A sample installation\<close>

text \<open>
  Concrete inputs on which the results below are evaluated. The first template of
  \<^verbatim>\<open>templates.py\<close>:
\<close>

definition ubuntu_basic :: template_entry where
  "ubuntu_basic =
     \<lparr>t_name = ''Ubuntu Basic'',
      description = ''Basic Ubuntu environment with essential development tools'',
      base_image = ''22.04'',
      packages = [''curl'', ''wget'', ''git'', ''vim'', ''htop'', ''tree'', ''unzip'',
                  ''build-essential'', ''software-properties-common'', ''apt-transport-https''],
      setup_script =
        [CHR 0x0A] @ ''                    # Set up basic development environment'' @
        [CHR 0x0A] @ ''                    git config --global init.defaultBranch main'' @
        [CHR 0x0A] @ ''                    echo '' @ [CHR 0x27] @ ''export EDITOR=vim'' @ [CHR 0x27] @
                     '' >> ~/.bashrc'' @
        [CHR 0x0A] @ ''                ''\<rparr>"

text \<open>
  One Multipass instance \<open>dev\<close>, running, and one LXD container \<open>web\<close>, stopped, whose
  network state lists the loopback interface first and then \<open>eth0\<close> with an IPv6 and an
  IPv4 address.
\<close>

definition sample_mp_list :: json where
  "sample_mp_list =
     JObj [(''list'',
            JArr [JObj [(''ipv4'', JArr [JStr ''10.20.30.5'']),
                        (''name'', JStr ''dev''),
                        (''release'', JStr ''Ubuntu 22.04 LTS''),
                        (''state'', JStr ''Running'')]])]"

definition sample_interfaces :: "(string \<times> json) list" where
  "sample_interfaces =
     [(''lo'',
       JObj [(''addresses'',
              JArr [JObj [(''family'', JStr ''inet''), (''address'', JStr ''127.0.0.1'')]])]),
      (''eth0'',
       JObj [(''addresses'',
              JArr [JObj [(''family'', JStr ''inet6''), (''address'', JStr ''fd42::1'')],
                    JObj [(''family'', JStr ''inet''), (''address'', JStr ''10.0.3.7'')]])])]"

definition sample_network :: json where
  "sample_network = JObj sample_interfaces"

definition sample_container :: json where
  "sample_container =
     JObj [(''name'', JStr ''web''),
           (''status'', JStr ''Stopped''),
           (''state'', JObj [(''network'', sample_network)])]"

text \<open>
  Two more containers. The first reports a loopback interface without an address list,
  an interface with an IPv6 address only, and one with two IPv4 addresses; the second
  has no IPv4 address at all.
\<close>

definition bridged_interfaces :: "(string \<times> json) list" where
  "bridged_interfaces =
     [(''lo'', JObj []),
      (''eth0'',
       JObj [(''addresses'',
              JArr [JObj [(''family'', JStr ''inet6''), (''address'', JStr ''fd42::2'')]])]),
      (''eth1'',
       JObj [(''addresses'',
              JArr [JObj [(''family'', JStr ''inet''), (''address'', JStr ''10.0.0.2'')],
                    JObj [(''family'', JStr ''inet''), (''address'', JStr ''10.0.0.3'')]])])]"

definition bridged_container :: json where
  "bridged_container =
     JObj [(''name'', JStr ''web''),
           (''status'', JStr ''Running''),
           (''state'', JObj [(''network'', JObj bridged_interfaces)])]"

definition isolated_interfaces :: "(string \<times> json) list" where
  "isolated_interfaces =
     [(''lo'',
       JObj [(''addresses'',
              JArr [JObj [(''family'', JStr ''inet''), (''address'', JStr ''127.0.0.1'')]])]),
      (''eth0'',
       JObj [(''addresses'',
              JArr [JObj [(''family'', JStr ''inet6''), (''address'', JStr ''fd42::3'')]])])]"

definition isolated_container :: json where
  "isolated_container =
     JObj [(''name'', JStr ''web''),
           (''status'', JStr ''Running''),
           (''state'', JObj [(''network'', JObj isolated_interfaces)])]"

definition sample_lxd_list :: json where
  "sample_lxd_list = JArr [sample_container]"

definition sample_config_show :: string where
  "sample_config_show =
     ''devices:'' @ [CHR 0x0A] @
     ''  mount0:'' @ [CHR 0x0A] @
     ''    path: /srv/www'' @ [CHR 0x0A] @
     ''    source: /home/me/www'' @ [CHR 0x0A] @
     ''    type: disk''"

text \<open>
  The sample world: the commands in \<open>failing\<close> exit non-zero, those in \<open>garbled\<close>
  print text that is not JSON, the two list commands print the listings above (the
  decoder knows their texts by name), anything else succeeds with empty output. The
  registry file can be written.
\<close>

definition sample_sys :: "string list list \<Rightarrow> string list list \<Rightarrow> sys" where
  "sample_sys failing garbled =
     \<lparr>respond = (\<lambda>history cmd.
        if cmd \<in> set failing then ExitNonZero
        else if cmd \<in> set garbled then Out ''not json''
        else if cmd = [''multipass'', ''list'', ''--format'', ''json''] then Out ''multipass listing''
        else if cmd = [''lxc'', ''list'', ''--format'', ''json''] then Out ''lxc listing''
        else if cmd = [''lxc'', ''config'', ''show'', ''web''] then Out sample_config_show
        else Out []),
      json_loads = (\<lambda>text.
        if text = ''multipass listing'' then Some sample_mp_list
        else if text = ''lxc listing'' then Some sample_lxd_list
        else None),
      write_result = (\<lambda>history. Written),
      templates = [(''ubuntu-basic'', ubuntu_basic)]\<rparr>"

definition sample_state :: state where
  "sample_state =
     \<lparr>trace = [],
      registry_file = Registry (JObj [(''dev'', registry_entry ''ubuntu-basic'' ''multipass''),
                                      (''web'', registry_entry ''ubuntu-basic'' ''lxd'')])\<rparr>"

text \<open>What \<^verbatim>\<open>list_environments\<close> returns there, and the commands it dispatches.\<close>

definition sample_dev :: env where
  "sample_dev =
     \<lparr>name = JStr ''dev'', status = ''Running'', backend = ''multipass'',
      ip = JStr ''10.20.30.5'', template = JStr ''ubuntu-basic'', mounts = []\<rparr>"

definition sample_web :: env where
  "sample_web =
     \<lparr>name = JStr ''web'', status = ''Stopped'', backend = ''lxd'',
      ip = JStr ''10.0.3.7'', template = JStr ''ubuntu-basic'', mounts = []\<rparr>"

definition listing_commands :: "string list list" where
  "listing_commands =
     [[''multipass'', ''version''],
      [''multipass'', ''list'', ''--format'', ''json''],
      [''multipass'', ''info'', ''dev'', ''--format'', ''json''],
      [''lxc'', ''version''],
      [''lxc'', ''list'', ''--format'', ''json''],
      [''lxc'', ''config'', ''show'', ''web'']]"

text \<open>A request to create \<open>dev\<close> on Multipass, on a machine with no registry file yet.\<close>

definition sample_config :: config where
  "sample_config =
     \<lparr>cfg_name = ''dev'', cfg_backend = ''multipass'', cfg_template = ''ubuntu-basic'',
      cfg_mounts = [\<lparr>m_host = ''/home/me/src'', m_guest = ''/src''\<rparr>],
      cfg_resources = \<lparr>cpus = Some 2, memory = Some ''2048M'', disk = Some ''10G''\<rparr>\<rparr>"

definition fresh_state :: state where
  "fresh_state = \<lparr>trace = [], registry_file = NoRegistry\<rparr>"

text \<open>
  A machine on which both backends hold an environment named \<open>x\<close>: the Multipass
  instance in state \<open>mp_state\<close>, the LXD container with status \<open>lxd_status\<close>.
\<close>

definition twin_sys :: "string \<Rightarrow> string \<Rightarrow> sys" where
  "twin_sys mp_state lxd_status =
     \<lparr>respond = (\<lambda>history cmd.
        if cmd = [''multipass'', ''list'', ''--format'', ''json''] then Out ''multipass listing''
        else if cmd = [''lxc'', ''list'', ''--format'', ''json''] then Out ''lxc listing''
        else Out []),
      json_loads = (\<lambda>text.
        if text = ''multipass listing''
          then Some (JObj [(''list'', JArr [JObj [(''ipv4'', JArr []), (''name'', JStr ''x''),
                                                  (''state'', JStr mp_state)]])])
        else if text = ''lxc listing''
          then Some (JArr [JObj [(''name'', JStr ''x''), (''status'', JStr lxd_status),
                                 (''state'', JNull)]])
        else None),
      write_result = (\<lambda>history. Written),
      templates = [(''ubuntu-basic'', ubuntu_basic)]\<rparr>"

definition twin_env :: "string \<Rightarrow> string \<Rightarrow> env" where
  "twin_env bk stat =
     \<lparr>name = JStr ''x'', status = stat, backend = bk, ip = not_available,
      template = JStr ''Unknown'', mounts = []\<rparr>"

definition twin_listing :: "string list list" where
  "twin_listing =
     [[''multipass'', ''version''],
      [''multipass'', ''list'', ''--format'', ''json''],
      [''multipass'', ''info'', ''x'', ''--format'', ''json''],
      [''lxc'', ''version''],
      [''lxc'', ''list'', ''--format'', ''json''],
      [''lxc'', ''config'', ''show'', ''x'']]"


definition denied_sys :: sys where
  "denied_sys =
     (sample_sys [] [])
       \<lparr>respond := (\<lambda>history cmd.
          if cmd = [''multipass'', ''version''] then Denied
          else respond (sample_sys [] []) history cmd)\<rparr>"

section \<open>Notions used to state the results\<close>


text \<open>
  The command-line program of a backend, and the commands that deleting an environment
  sends to it, in order: a stop when the environment is reported running, the delete,
  and for Multipass the purge.
\<close>

definition backend_tool :: "string \<Rightarrow> string" where
  "backend_tool bk = (if bk = ''multipass'' then ''multipass'' else ''lxc'')"

definition delete_commands :: "env \<Rightarrow> string \<Rightarrow> string list list" where
  "delete_commands ev n =
     (if status ev = ''Running'' then [[backend_tool (backend ev), ''stop'', n]] else []) @
     [[backend_tool (backend ev), ''delete'', n]] @
     (if backend ev = ''multipass'' then [[''multipass'', ''purge'']] else [])"

text \<open>
  Running a list of commands one after the other, each only when the one before it
  has exited with status 0: \<open>run_all\<close> is the computation, \<open>dispatched\<close> the commands
  that are sent (up to and including the first that fails), \<open>all_succeed\<close> whether
  none fails. \<open>history\<close> is the trace when the first command is sent.
\<close>

fun run_all :: "sys \<Rightarrow> string list list \<Rightarrow> state \<Rightarrow> unit result" where
  "run_all y [] s = (Inr (), s)"
| "run_all y (c # cs) s = and_then (run_command y c s) (\<lambda>_. run_all y cs)"

fun dispatched :: "sys \<Rightarrow> string list list \<Rightarrow> string list list \<Rightarrow> string list list" where
  "dispatched y history [] = []"
| "dispatched y history (c # cs) =
     c # (case respond y history c of
            Out out \<Rightarrow> dispatched y (history @ [c]) cs
          | _ \<Rightarrow> [])"

fun all_succeed :: "sys \<Rightarrow> string list list \<Rightarrow> string list list \<Rightarrow> bool" where
  "all_succeed y history [] = True"
| "all_succeed y history (c # cs) =
     (case respond y history c of
        Out out \<Rightarrow> all_succeed y (history @ [c]) cs
      | _ \<Rightarrow> False)"

text \<open>
  The selection of a container's address in the words of the specification, read off
  the decoded network state (the items of \<^verbatim>\<open>state["network"]\<close>, one per interface, in
  the reported order). \<open>addresses_of\<close> is the address list of an interface, \<open>inet_of\<close>
  the addresses of family IPv4 in such a list, \<open>inet_addresses\<close> those of all interfaces
  other than \<open>lo\<close>, and \<open>first_ipv4\<close> the first of them, or the \<open>Not available\<close> text
  when there is none. Whatever has not the expected shape contributes no address.
\<close>

fun addresses_of :: "json \<Rightarrow> json list" where
  "addresses_of (JObj d) = (case map_of d ''addresses'' of Some (JArr xs) \<Rightarrow> xs | _ \<Rightarrow> [])"
| "addresses_of _ = []"

fun inet_of :: "json list \<Rightarrow> json list" where
  "inet_of [] = []"
| "inet_of (JObj d # rest) =
     (if map_of d ''family'' = Some (JStr ''inet'')
      then (case map_of d ''address'' of None \<Rightarrow> inet_of rest | Some a \<Rightarrow> a # inet_of rest)
      else inet_of rest)"
| "inet_of (_ # rest) = inet_of rest"

definition inet_addresses :: "(string \<times> json) list \<Rightarrow> json list" where
  "inet_addresses ifs =
     concat (map (\<lambda>i. inet_of (addresses_of (snd i))) (filter (\<lambda>i. fst i \<noteq> ''lo'') ifs))"

definition first_ipv4 :: "(string \<times> json) list \<Rightarrow> json" where
  "first_ipv4 ifs = (case inet_addresses ifs of [] \<Rightarrow> not_available | a # _ \<Rightarrow> a)"

text \<open>
  An IPv4 address as the backend prints it: four decimal numbers of one to three
  digits, none above 255, separated by dots.
\<close>

definition is_digit :: "char \<Rightarrow> bool" where
  "is_digit c = (c \<in> set ''0123456789'')"

fun split_dots :: "string \<Rightarrow> string list" where
  "split_dots [] = [[]]"
| "split_dots (c # cs) =
     (if c = CHR ''.'' then [] # split_dots cs
      else (case split_dots cs of [] \<Rightarrow> [[c]] | p # ps \<Rightarrow> (c # p) # ps))"

definition digit_value :: "char \<Rightarrow> nat" where
  "digit_value c = length (takeWhile (\<lambda>d. d \<noteq> c) ''0123456789'')"

definition decimal_value :: "string \<Rightarrow> nat" where
  "decimal_value p = foldl (\<lambda>v c. 10 * v + digit_value c) 0 p"

definition octet_text :: "string \<Rightarrow> bool" where
  "octet_text p =
     (p \<noteq> [] \<and> length p \<le> 3 \<and> list_all is_digit p \<and> decimal_value p \<le> 255)"

definition ipv4_text :: "string \<Rightarrow> bool" where
  "ipv4_text t = (length (split_dots t) = 4 \<and> list_all octet_text (split_dots t))"

definition ipv4_value :: "json \<Rightarrow> bool" where
  "ipv4_value a = (case a of JStr t \<Rightarrow> ipv4_text t | _ \<Rightarrow> False)"

text \<open>A name that a command line can carry: it has no NUL character.\<close>

definition nul_free :: "string \<Rightarrow> bool" where
  "nul_free n = (CHR 0x00 \<notin> set n)"

section \<open>Frame properties: what the listing leaves alone\<close>

text \<open>
  Commands only extend the trace: the registry file is read, never written, by the
  listing, and every listed record of a container has an empty mount list.
\<close>

lemma run_command_registry: "run_command y cmd s = (r, s') \<Longrightarrow> registry_file s' = registry_file s"
  by (auto simp: run_command_def Let_def split: response.splits if_splits)

lemma run_command_nul:
  "has_nul cmd \<Longrightarrow> run_command y cmd s = (Inl (ValueError EmbeddedNull), s)"
  by (simp add: run_command_def Let_def)

lemma run_command_no_nul:
  "\<not> has_nul cmd \<Longrightarrow>
     run_command y cmd s =
       (case respond y (trace s) cmd of
          Out out \<Rightarrow> Inr out
        | ExitNonZero \<Rightarrow> Inl (RuntimeError (CommandFailed cmd))
        | NotFound \<Rightarrow> Inl (RuntimeError (CommandNotFound cmd))
        | Denied \<Rightarrow> Inl PermissionError
        | Undecodable ok \<Rightarrow> Inl UnicodeDecodeError,
        s\<lparr>trace := trace s @ [cmd]\<rparr>)"
  by (simp add: run_command_def Let_def split: response.splits)

lemma run_command_error:
  "run_command y cmd s = (Inl e, s') \<Longrightarrow>
     e = RuntimeError (CommandFailed cmd) \<or> e = RuntimeError (CommandNotFound cmd)
     \<or> e = PermissionError \<or> e = UnicodeDecodeError \<or> e = ValueError EmbeddedNull"
  by (auto simp: run_command_def Let_def split: response.splits if_splits)

lemma run_command_ok:
  "run_command y cmd s = (Inr out, s') \<longleftrightarrow>
     \<not> has_nul cmd \<and> respond y (trace s) cmd = Out out \<and> s' = s\<lparr>trace := trace s @ [cmd]\<rparr>"
  by (auto simp: run_command_def Let_def split: response.splits)

lemma probe_result_registry:
  "probe_result r = (a, s') \<Longrightarrow> registry_file s' = registry_file (snd r)"
  by (auto simp: probe_result_def split: prod.splits sum.splits exn.splits)

lemma check_backend_registry:
  "check_backend_available y b s = (a, s') \<Longrightarrow> registry_file s' = registry_file s"
proof (cases "b = ''multipass'' \<or> b = ''lxd''")
  case True
  assume c: "check_backend_available y b s = (a, s')"
  from True obtain cmd where "probe_result (run_command y cmd s) = (a, s')"
    using c by (auto simp: check_backend_available_def split: if_splits)
  from probe_result_registry[OF this] show ?thesis
    using run_command_registry[of y cmd s] by (cases "run_command y cmd s") simp
next
  case False
  assume "check_backend_available y b s = (a, s')"
  with False show ?thesis by (simp add: check_backend_available_def)
qed

lemma has_nul_info [simp]:
  "has_nul [''multipass'', ''info'', n, ''--format'', ''json''] \<longleftrightarrow> \<not> nul_free n"
  by (simp add: has_nul_def nul_free_def)

lemma has_nul_show [simp]:
  "has_nul [''lxc'', ''config'', ''show'', n] \<longleftrightarrow> \<not> nul_free n"
  by (simp add: has_nul_def nul_free_def)

lemma has_nul_tool [simp]:
  "has_nul [''multipass'', verb, n] \<longleftrightarrow> has_nul [verb, n]"
  "has_nul [''lxc'', verb, n] \<longleftrightarrow> has_nul [verb, n]"
  by (simp_all add: has_nul_def)

lemma has_nul_verb [simp]:
  "has_nul [''start'', n] \<longleftrightarrow> \<not> nul_free n"
  "has_nul [''stop'', n] \<longleftrightarrow> \<not> nul_free n"
  "has_nul [''delete'', n] \<longleftrightarrow> \<not> nul_free n"
  "\<not> has_nul [''multipass'', ''purge'']"
  by (simp_all add: has_nul_def nul_free_def)

lemma lxd_scan_id: "lxd_scan ls b cur ms = ms"
  by (induction ls arbitrary: b cur) (simp_all add: Let_def)

lemma get_lxd_mounts_registry:
  "get_lxd_mounts y nm s = (r, s') \<Longrightarrow> registry_file s' = registry_file s"
  by (auto simp: get_lxd_mounts_def split: json.splits prod.splits sum.splits exn.splits
           dest: run_command_registry)

lemma get_lxd_mounts_name:
  "get_lxd_mounts y nm s = (Inr ms, s') \<Longrightarrow> \<exists>n. nm = JStr n \<and> nul_free n"
proof (cases nm)
  case (JStr n)
  assume g: "get_lxd_mounts y nm s = (Inr ms, s')"
  have "nul_free n"
  proof (rule ccontr)
    assume "\<not> nul_free n"
    then have "run_command y [''lxc'', ''config'', ''show'', n] s = (Inl (ValueError EmbeddedNull), s)"
      by (simp add: run_command_nul)
    with g JStr show False by (simp add: get_lxd_mounts_def)
  qed
  with JStr show ?thesis by simp
qed (auto simp: get_lxd_mounts_def)

lemma get_lxd_mounts_empty:
  "get_lxd_mounts y nm s = (Inr ms, s') \<Longrightarrow> ms = []"
  by (auto simp: get_lxd_mounts_def lxd_scan_id split: json.splits prod.splits sum.splits exn.splits)

lemma get_multipass_mounts_registry:
  "get_multipass_mounts y nm s = (r, s') \<Longrightarrow> registry_file s' = registry_file s"
  by (auto simp: get_multipass_mounts_def split: json.splits prod.splits sum.splits option.splits if_splits
           dest: run_command_registry)

lemma get_multipass_mounts_name:
  "get_multipass_mounts y nm s = (Inr ms, s') \<Longrightarrow> \<exists>n. nm = JStr n \<and> nul_free n"
proof (cases nm)
  case (JStr n)
  assume g: "get_multipass_mounts y nm s = (Inr ms, s')"
  have "nul_free n"
  proof (rule ccontr)
    assume "\<not> nul_free n"
    then have "run_command y [''multipass'', ''info'', n, ''--format'', ''json''] s =
                 (Inl (ValueError EmbeddedNull), s)"
      by (simp add: run_command_nul)
    with g JStr show False by (simp add: get_multipass_mounts_def)
  qed
  with JStr show ?thesis by simp
qed (auto simp: get_multipass_mounts_def)

lemma get_environment_template_cong:
  "registry_file s = registry_file s' \<Longrightarrow> get_environment_template s nm = get_environment_template s' nm"
  by (simp add: get_environment_template_def load_environments_config_def)

lemma mp_env_registry:
  "mp_env y i s = (r, s') \<Longrightarrow> registry_file s' = registry_file s"
  by (auto simp: mp_env_def split: sum.splits prod.splits dest: get_multipass_mounts_registry)

lemma lxd_env_registry:
  "lxd_env y i s = (r, s') \<Longrightarrow> registry_file s' = registry_file s"
  by (auto simp: lxd_env_def Let_def split: sum.splits prod.splits dest: get_lxd_mounts_registry)

lemma mp_env_fields:
  "mp_env y i s = (Inr e, s') \<Longrightarrow>
     backend e = ''multipass'' \<and> get_environment_template s (name e) = Inr (template e)"
  by (auto simp: mp_env_def split: sum.splits prod.splits)

lemma lxd_env_fields:
  "lxd_env y i s = (Inr e, s') \<Longrightarrow>
     backend e = ''lxd'' \<and> mounts e = [] \<and> get_environment_template s (name e) = Inr (template e)"
  by (auto simp: lxd_env_def Let_def split: sum.splits prod.splits dest: get_lxd_mounts_empty)

lemma mp_env_name:
  "mp_env y i s = (Inr e, s') \<Longrightarrow> \<exists>n. name e = JStr n \<and> nul_free n"
  by (auto simp: mp_env_def split: sum.splits prod.splits dest: get_multipass_mounts_name)

lemma lxd_env_name:
  "lxd_env y i s = (Inr e, s') \<Longrightarrow> \<exists>n. name e = JStr n \<and> nul_free n"
  by (auto simp: lxd_env_def Let_def split: sum.splits prod.splits dest: get_lxd_mounts_name)

lemma mp_loop_inv:
  assumes "mp_loop y insts envs s = ((r, envs'), s')"
    and "\<forall>e\<in>set envs. Q e"
    and "registry_file s = R"
    and step: "\<And>i s e s'. registry_file s = R \<Longrightarrow> mp_env y i s = (Inr e, s') \<Longrightarrow> Q e"
  shows "(\<forall>e\<in>set envs'. Q e) \<and> registry_file s' = R"
  using assms(1-3)
proof (induction insts arbitrary: envs s)
  case Nil
  then show ?case by simp
next
  case (Cons i rest)
  show ?case
  proof (cases "mp_env y i s")
    case (Pair res s1)
    have reg1: "registry_file s1 = R"
      using Pair Cons.prems(3) mp_env_registry by fastforce
    show ?thesis
    proof (cases res)
      case (Inl e)
      with Pair Cons.prems reg1 show ?thesis by simp
    next
      case (Inr ev)
      have "Q ev" using step[OF Cons.prems(3)] Pair Inr by simp
      with Cons.prems(2) have all: "\<forall>e\<in>set (envs @ [ev]). Q e" by simp
      have "mp_loop y rest (envs @ [ev]) s1 = ((r, envs'), s')"
        using Cons.prems(1) Pair Inr by simp
      from Cons.IH[OF this all reg1] show ?thesis .
    qed
  qed
qed

lemma lxd_loop_inv:
  assumes "lxd_loop y cs envs s = ((r, envs'), s')"
    and "\<forall>e\<in>set envs. Q e"
    and "registry_file s = R"
    and step: "\<And>i s e s'. registry_file s = R \<Longrightarrow> lxd_env y i s = (Inr e, s') \<Longrightarrow> Q e"
  shows "(\<forall>e\<in>set envs'. Q e) \<and> registry_file s' = R"
  using assms(1-3)
proof (induction cs arbitrary: envs s)
  case Nil
  then show ?case by simp
next
  case (Cons i rest)
  show ?case
  proof (cases "lxd_env y i s")
    case (Pair res s1)
    have reg1: "registry_file s1 = R"
      using Pair Cons.prems(3) lxd_env_registry by fastforce
    show ?thesis
    proof (cases res)
      case (Inl e)
      with Pair Cons.prems reg1 show ?thesis by simp
    next
      case (Inr ev)
      have "Q ev" using step[OF Cons.prems(3)] Pair Inr by simp
      with Cons.prems(2) have all: "\<forall>e\<in>set (envs @ [ev]). Q e" by simp
      have "lxd_loop y rest (envs @ [ev]) s1 = ((r, envs'), s')"
        using Cons.prems(1) Pair Inr by simp
      from Cons.IH[OF this all reg1] show ?thesis .
    qed
  qed
qed

lemma mp_section_inv:
  assumes "mp_section y envs s = ((r, envs'), s')"
    and "\<forall>e\<in>set envs. Q e"
    and "registry_file s = R"
    and step: "\<And>i s e s'. registry_file s = R \<Longrightarrow> mp_env y i s = (Inr e, s') \<Longrightarrow> Q e"
  shows "(\<forall>e\<in>set envs'. Q e) \<and> registry_file s' = R"
proof (cases "run_command y [''multipass'', ''list'', ''--format'', ''json''] s")
  case (Pair res s1)
  have reg1: "registry_file s1 = R" using Pair assms(3) run_command_registry by fastforce
  have loop: "(\<forall>e\<in>set envs'. Q e) \<and> registry_file s' = R"
    if "mp_loop y insts envs s1 = ((r, envs'), s')" for insts
    using that assms(2) reg1 step by (rule mp_loop_inv)
  show ?thesis
    using assms(1,2) Pair reg1 loop
    by (auto simp: mp_section_def split: sum.splits option.splits)
qed

lemma lxd_section_inv:
  assumes "lxd_section y envs s = ((r, envs'), s')"
    and "\<forall>e\<in>set envs. Q e"
    and "registry_file s = R"
    and step: "\<And>i s e s'. registry_file s = R \<Longrightarrow> lxd_env y i s = (Inr e, s') \<Longrightarrow> Q e"
  shows "(\<forall>e\<in>set envs'. Q e) \<and> registry_file s' = R"
proof (cases "run_command y [''lxc'', ''list'', ''--format'', ''json''] s")
  case (Pair res s1)
  have reg1: "registry_file s1 = R" using Pair assms(3) run_command_registry by fastforce
  have loop: "(\<forall>e\<in>set envs'. Q e) \<and> registry_file s' = R"
    if "lxd_loop y insts envs s1 = ((r, envs'), s')" for insts
    using that assms(2) reg1 step by (rule lxd_loop_inv)
  show ?thesis
    using assms(1,2) Pair reg1 loop
    by (auto simp: lxd_section_def split: sum.splits option.splits)
qed

lemma mp_part_inv:
  assumes "mp_part y s = (res, s')"
    and "registry_file s = R"
    and step: "\<And>i s e s'. registry_file s = R \<Longrightarrow> mp_env y i s = (Inr e, s') \<Longrightarrow> Q e"
  shows "registry_file s' = R \<and> (\<forall>envs. res = Inr envs \<longrightarrow> (\<forall>e\<in>set envs. Q e))"
proof (cases "check_backend_available y ''multipass'' s")
  case (Pair a s1)
  have reg1: "registry_file s1 = R" using Pair assms(2) check_backend_registry by fastforce
  have sec: "(\<forall>e\<in>set envs'. Q e) \<and> registry_file s2 = R"
    if "mp_section y [] s1 = ((r, envs'), s2)" for r envs' s2
    using that _ reg1 step by (rule mp_section_inv) simp
  show ?thesis
    using assms(1) Pair reg1 sec
    by (auto simp: mp_part_def split: sum.splits bool.splits prod.splits option.splits if_splits)
qed

lemma lxd_part_inv:
  assumes "lxd_part y envs0 s = (res, s')"
    and "\<forall>e\<in>set envs0. Q e"
    and "registry_file s = R"
    and step: "\<And>i s e s'. registry_file s = R \<Longrightarrow> lxd_env y i s = (Inr e, s') \<Longrightarrow> Q e"
  shows "registry_file s' = R \<and> (\<forall>envs. res = Inr envs \<longrightarrow> (\<forall>e\<in>set envs. Q e))"
proof (cases "check_backend_available y ''lxd'' s")
  case (Pair a s1)
  have reg1: "registry_file s1 = R" using Pair assms(3) check_backend_registry by fastforce
  have sec: "(\<forall>e\<in>set envs'. Q e) \<and> registry_file s2 = R"
    if "lxd_section y envs0 s1 = ((r, envs'), s2)" for r envs' s2
    using that assms(2) reg1 step by (rule lxd_section_inv)
  show ?thesis
    using assms(1,2) Pair reg1 sec
    by (auto simp: lxd_part_def split: sum.splits bool.splits prod.splits option.splits if_splits)
qed

lemma list_environments_inv:
  assumes "list_environments y s = (res, s')"
    and mp: "\<And>i s1 e s2. registry_file s1 = registry_file s \<Longrightarrow> mp_env y i s1 = (Inr e, s2) \<Longrightarrow> Q e"
    and lxd: "\<And>i s1 e s2. registry_file s1 = registry_file s \<Longrightarrow> lxd_env y i s1 = (Inr e, s2) \<Longrightarrow> Q e"
  shows "registry_file s' = registry_file s \<and> (\<forall>envs. res = Inr envs \<longrightarrow> (\<forall>e\<in>set envs. Q e))"
proof (cases "mp_part y s")
  case (Pair r1 s1)
  from mp_part_inv[OF Pair refl, of Q] mp
  have p1: "registry_file s1 = registry_file s" "\<forall>envs. r1 = Inr envs \<longrightarrow> (\<forall>e\<in>set envs. Q e)"
    by blast+
  show ?thesis
  proof (cases r1)
    case (Inl e)
    with assms(1) Pair p1 show ?thesis by (simp add: list_environments_def)
  next
    case (Inr envs1)
    with assms(1) Pair have "lxd_part y envs1 s1 = (res, s')" by (simp add: list_environments_def)
    from lxd_part_inv[OF this _ p1(1), of Q] p1(2) Inr lxd show ?thesis by blast
  qed
qed

lemma list_environments_registry:
  "list_environments y s = (res, s') \<Longrightarrow> registry_file s' = registry_file s"
  using list_environments_inv[of y s res s' "\<lambda>_. True"] by simp

text \<open>Provisioning dispatches commands and nothing else.\<close>

lemma script_loop_registry:
  "script_loop y ex ls s = (r, s') \<Longrightarrow> registry_file s' = registry_file s"
proof (induction ls arbitrary: s)
  case Nil
  then show ?case by simp
next
  case (Cons l ls)
  then show ?case
    by (auto simp: and_then_def split: if_splits prod.splits sum.splits dest!: run_command_registry)
qed

lemma mp_mount_loop_registry:
  "mp_mount_loop y nm ms s = (r, s') \<Longrightarrow> registry_file s' = registry_file s"
proof (induction ms arbitrary: s)
  case Nil
  then show ?case by simp
next
  case (Cons m ms)
  then show ?case
    by (auto simp: and_then_def split: if_splits prod.splits sum.splits dest!: run_command_registry)
qed

lemma lxd_mount_loop_registry:
  "lxd_mount_loop y nm i ms s = (r, s') \<Longrightarrow> registry_file s' = registry_file s"
proof (induction ms arbitrary: s i)
  case Nil
  then show ?case by simp
next
  case (Cons m ms)
  then show ?case
    by (auto simp: and_then_def split: if_splits prod.splits sum.splits dest!: run_command_registry)
qed

lemma setup_environment_registry:
  "setup_environment y nm tmpl bk s = (r, s') \<Longrightarrow> registry_file s' = registry_file s"
  by (auto simp: setup_environment_def and_then_def
           split: if_splits prod.splits sum.splits
           dest!: run_command_registry script_loop_registry)

lemma create_multipass_registry:
  "create_multipass_environment y nm tmpl ms rs s = (r, s') \<Longrightarrow> registry_file s' = registry_file s"
  by (auto simp: create_multipass_environment_def and_then_def
           split: if_splits prod.splits sum.splits
           dest!: run_command_registry mp_mount_loop_registry setup_environment_registry)

lemma create_lxd_registry:
  "create_lxd_environment y nm tmpl ms rs s = (r, s') \<Longrightarrow> registry_file s' = registry_file s"
  by (auto simp: create_lxd_environment_def and_then_def
           split: if_splits prod.splits sum.splits option.splits
           dest!: run_command_registry lxd_mount_loop_registry setup_environment_registry)

lemma provision_registry:
  "provision y c tmpl s = (r, s') \<Longrightarrow> registry_file s' = registry_file s"
  by (auto simp: provision_def split: if_splits dest: create_multipass_registry create_lxd_registry)

text \<open>The registry file after a write, and sequences of commands.\<close>

lemma save_result:
  "save_environments_config y cfg s = (Inr u, s') \<Longrightarrow> registry_file s' = Registry cfg"
  by (auto simp: save_environments_config_def split: write_outcome.splits)

lemma record_environment_ok:
  assumes "record_environment y c s = (Inr u, s')"
  shows "\<exists>d. registry_file s' = Registry (JObj d) \<and>
             map_of d (cfg_name c) = Some (registry_entry (cfg_template c) (cfg_backend c))"
proof -
  from assms obtain env_config env_config' where
    l: "load_environments_config s = Inr env_config"
    and si: "set_item env_config (cfg_name c) (registry_entry (cfg_template c) (cfg_backend c)) =
               Inr env_config'"
    and sv: "save_environments_config y env_config' s = (Inr u, s')"
    by (auto simp: record_environment_def split: sum.splits)
  from si obtain d where
    "env_config' = JObj (AList.update (cfg_name c) (registry_entry (cfg_template c) (cfg_backend c)) d)"
    by (cases env_config) auto
  with save_result[OF sv] show ?thesis by (auto simp: update_conv')
qed

lemma create_environment_ok:
  assumes "create_environment y c s = (Inr u, s')"
  shows "\<exists>d. registry_file s' = Registry (JObj d) \<and>
             map_of d (cfg_name c) = Some (registry_entry (cfg_template c) (cfg_backend c))"
  using assms
  by (auto simp: create_environment_def and_then_def
           split: if_splits prod.splits bool.splits option.splits sum.splits
           dest: record_environment_ok)

lemma save_registry_trace:
  "save_environments_config y cfg s = (r, s') \<Longrightarrow> trace s' = trace s"
  by (auto simp: save_environments_config_def split: write_outcome.splits)

lemma forget_environment_trace:
  "forget_environment y n s = (r, s') \<Longrightarrow> trace s' = trace s"
  by (auto simp: forget_environment_def Let_def
           split: sum.splits bool.splits dest: save_registry_trace)

lemma run_all_facts:
  "run_all y cs s = (r, s') \<Longrightarrow> \<forall>c\<in>set cs. \<not> has_nul c \<Longrightarrow>
     trace s' = trace s @ dispatched y (trace s) cs
     \<and> (r = Inr () \<longleftrightarrow> all_succeed y (trace s) cs)
     \<and> registry_file s' = registry_file s"
proof (induction cs arbitrary: s)
  case Nil
  then show ?case by auto
next
  case (Cons c cs)
  from Cons.prems(2) have nn: "\<not> has_nul c" and rest: "\<forall>c\<in>set cs. \<not> has_nul c" by simp_all
  note rc = run_command_no_nul[OF nn, of y s]
  show ?case
  proof (cases "respond y (trace s) c")
    case (Out out)
    with rc Cons.prems(1) have "run_all y cs (s\<lparr>trace := trace s @ [c]\<rparr>) = (r, s')"
      by (simp add: and_then_def)
    from Cons.IH[OF this rest] Out show ?thesis by simp
  next
    case ExitNonZero
    with rc Cons.prems(1) show ?thesis by (auto simp: and_then_def)
  next
    case NotFound
    with rc Cons.prems(1) show ?thesis by (auto simp: and_then_def)
  next
    case Denied
    with rc Cons.prems(1) show ?thesis by (auto simp: and_then_def)
  next
    case (Undecodable ok)
    with rc Cons.prems(1) show ?thesis by (auto simp: and_then_def)
  qed
qed

lemma and_then_Inr: "and_then (Inr a, s) f = f a s"
  by (simp add: and_then_def)

lemma and_then_Inl: "and_then (Inl e, s) f = (Inl e, s)"
  by (simp add: and_then_def)

lemma run_all_Nil_fun: "run_all y [] = (\<lambda>s. (Inr (), s))"
  by (rule ext) simp

lemma run_all_Cons_fun:
  "run_all y (c # cs) = (\<lambda>s. and_then (run_command y c s) (\<lambda>_. run_all y cs))"
  by (rule ext) simp

lemma backend_delete_run_all:
  assumes "backend ev = ''multipass'' \<or> backend ev = ''lxd''"
  shows "backend_delete y ev n s = run_all y (delete_commands ev n) s"
proof (cases "status ev = ''Running''")
  case True
  with assms show ?thesis
    by (auto simp: backend_delete_def delete_commands_def backend_tool_def run_all_Nil_fun run_all_Cons_fun)
next
  case False
  with assms show ?thesis
    by (auto simp: backend_delete_def delete_commands_def backend_tool_def run_all_Nil_fun run_all_Cons_fun
                   and_then_Inr)
qed

lemma listed_backend:
  assumes "list_environments y s = (Inr envs, s1)" and "e \<in> set envs"
  shows "backend e = ''multipass'' \<or> backend e = ''lxd''"
proof -
  from list_environments_inv[OF assms(1), of "\<lambda>e. backend e = ''multipass'' \<or> backend e = ''lxd''"]
  show ?thesis using mp_env_fields lxd_env_fields assms(2) by blast
qed

lemma listed_name:
  assumes "list_environments y s = (Inr envs, s1)" and "e \<in> set envs"
  shows "\<exists>n. name e = JStr n \<and> nul_free n"
proof -
  from list_environments_inv[OF assms(1), of "\<lambda>e. \<exists>n. name e = JStr n \<and> nul_free n"]
  show ?thesis using mp_env_name lxd_env_name assms(2) by blast
qed

lemma find_env_in: "find_env n envs = Some ev \<Longrightarrow> ev \<in> set envs \<and> name ev = JStr n"
  by (auto simp: find_env_def find_Some_iff)

lemma dispatched_last:
  "c \<notin> set cs \<Longrightarrow> (c \<in> set (dispatched y h (cs @ [c])) \<longleftrightarrow> all_succeed y h cs)"
  by (induction cs arbitrary: h) (auto split: response.splits)

lemma dispatched_subset: "set (dispatched y h cs) \<subseteq> set cs"
  by (induction cs arbitrary: h) (auto split: response.splits)

text \<open>Deleting, starting, stopping and the terminal probes.\<close>

lemma backend_delete_registry:
  "backend_delete y ev n s = (r, s') \<Longrightarrow> registry_file s' = registry_file s"
  by (auto simp: backend_delete_def and_then_def split: if_splits prod.splits sum.splits
           dest!: run_command_registry)

lemma rewrap_run_command:
  "\<not> has_nul cmd \<Longrightarrow>
   rewrap w (run_command y cmd s) =
     (case respond y (trace s) cmd of
        Out out \<Rightarrow> Inr ()
      | ExitNonZero \<Rightarrow> Inl (RuntimeError (w (RuntimeError (CommandFailed cmd))))
      | NotFound \<Rightarrow> Inl (RuntimeError (w (RuntimeError (CommandNotFound cmd))))
      | Denied \<Rightarrow> Inl PermissionError
      | Undecodable ok \<Rightarrow> Inl UnicodeDecodeError,
      s\<lparr>trace := trace s @ [cmd]\<rparr>)"
  by (simp add: rewrap_def reraise_def run_command_no_nul split: response.splits)

lemma rewrap_snd: "snd (rewrap w r) = snd r"
  by (cases r) (auto simp: rewrap_def split: sum.splits)

lemma listed_tool:
  assumes "list_environments y s = (Inr envs, s1)" and "find_env n envs = Some ev"
  shows "backend ev = ''multipass'' \<and> backend_tool (backend ev) = ''multipass''
          \<or> backend ev = ''lxd'' \<and> backend_tool (backend ev) = ''lxc''"
proof -
  have "backend ev = ''multipass'' \<or> backend ev = ''lxd''"
    using listed_backend[OF assms(1)] find_env_in[OF assms(2)] by blast
  then show ?thesis by (auto simp: backend_tool_def)
qed

lemma found_name:
  assumes "list_environments y s = (Inr envs, s1)" and "find_env n envs = Some ev"
  shows "nul_free n"
  using listed_name[OF assms(1), of ev] find_env_in[OF assms(2)] by auto

lemma delete_commands_no_nul:
  assumes "backend ev = ''multipass'' \<or> backend ev = ''lxd''" and "nul_free n"
  shows "\<forall>c\<in>set (delete_commands ev n). \<not> has_nul c"
  using assms by (auto simp: delete_commands_def backend_tool_def)

lemma start_environment_dispatch:
  assumes "list_environments y s = (Inr envs, s1)" and "find_env n envs = Some ev"
    and "status ev \<noteq> ''Running''"
  shows "start_environment y n s =
           rewrap FailedToStart (run_command y [backend_tool (backend ev), ''start'', n] s1)"
  using assms listed_tool[OF assms(1,2)]
  by (auto simp: start_environment_def)

lemma stop_environment_dispatch:
  assumes "list_environments y s = (Inr envs, s1)" and "find_env n envs = Some ev"
    and "status ev \<noteq> ''Stopped''"
  shows "stop_environment y n s =
           rewrap FailedToStop (run_command y [backend_tool (backend ev), ''stop'', n] s1)"
  using assms listed_tool[OF assms(1,2)]
  by (auto simp: stop_environment_def)

lemma delete_environment_trace:
  assumes "list_environments y s = (Inr envs, s1)" and "find_env n envs = Some ev"
  shows "trace (snd (delete_environment y n s)) =
            trace s1 @ dispatched y (trace s1) (delete_commands ev n)"
proof -
  have bk: "backend ev = ''multipass'' \<or> backend ev = ''lxd''"
    using listed_tool[OF assms] by blast
  obtain r s2 where ra: "run_all y (delete_commands ev n) s1 = (r, s2)"
    by (cases "run_all y (delete_commands ev n) s1")
  from run_all_facts[OF ra delete_commands_no_nul[OF bk found_name[OF assms]]]
  have tr: "trace s2 = trace s1 @ dispatched y (trace s1) (delete_commands ev n)" by simp
  have bd: "backend_delete y ev n s1 = (r, s2)"
    using ra by (simp only: backend_delete_run_all[OF bk])
  have "trace (snd (delete_environment y n s)) = trace s2"
  proof (cases r)
    case (Inl e)
    with bd assms show ?thesis
      by (simp add: delete_environment_def rewrap_snd and_then_Inl)
  next
    case (Inr u)
    obtain r3 s3 where f: "forget_environment y n s2 = (r3, s3)"
      by (cases "forget_environment y n s2")
    from forget_environment_trace[OF f] have "trace s3 = trace s2" .
    with Inr bd assms f show ?thesis
      by (simp add: delete_environment_def rewrap_snd and_then_Inr)
  qed
  with tr show ?thesis by simp
qed

lemma purge_dispatched:
  assumes "backend ev = ''multipass'' \<or> backend ev = ''lxd''"
  shows "[''multipass'', ''purge''] \<in> set (dispatched y h (delete_commands ev n)) \<longleftrightarrow>
            backend ev = ''multipass'' \<and>
            all_succeed y h
              ((if status ev = ''Running'' then [[''multipass'', ''stop'', n]] else []) @
               [[''multipass'', ''delete'', n]])"
proof (cases "backend ev = ''multipass''")
  case True
  define pre where "pre = (if status ev = ''Running'' then [[''multipass'', ''stop'', n]] else []) @
               [[''multipass'', ''delete'', n]]"
  have dc: "delete_commands ev n = pre @ [[''multipass'', ''purge'']]"
    using True by (simp add: delete_commands_def backend_tool_def pre_def)
  have "[''multipass'', ''purge''] \<notin> set pre" by (simp add: pre_def)
  then have "[''multipass'', ''purge''] \<in> set (dispatched y h (pre @ [[''multipass'', ''purge'']]))
               \<longleftrightarrow> all_succeed y h pre"
    by (rule dispatched_last)
  with True show ?thesis unfolding dc pre_def by simp
next
  case False
  with assms have lxd: "backend ev = ''lxd''" by simp
  have "[''multipass'', ''purge''] \<notin> set (delete_commands ev n)"
    by (simp add: delete_commands_def backend_tool_def lxd)
  with dispatched_subset[of y h "delete_commands ev n"]
  have "[''multipass'', ''purge''] \<notin> set (dispatched y h (delete_commands ev n))" by blast
  with False show ?thesis by simp
qed

lemma probe_terminals_trace:
  "probe_terminals y ts s = (r, s') \<Longrightarrow> length (trace s) \<le> length (trace s') \<and> (ts \<noteq> [] \<longrightarrow> length (trace s) < length (trace s'))"
proof (induction ts arbitrary: s)
  case Nil
  then show ?case by simp
next
  case (Cons t ts)
  show ?case
  proof (cases "respond y (trace s) (take 1 t @ [''--version''])")
    case (Out out)
    with Cons.prems show ?thesis by (auto simp: Let_def)
  next
    case ExitNonZero
    with Cons.prems Cons.IH[of "s\<lparr>trace := trace s @ [take 1 t @ [''--version'']]\<rparr>"]
    show ?thesis by (auto simp: Let_def)
  next
    case NotFound
    with Cons.prems Cons.IH[of "s\<lparr>trace := trace s @ [take 1 t @ [''--version'']]\<rparr>"]
    show ?thesis by (auto simp: Let_def)
  next
    case Denied
    with Cons.prems show ?thesis by (auto simp: Let_def)
  next
    case (Undecodable ok)
    with Cons.prems Cons.IH[of "s\<lparr>trace := trace s @ [take 1 t @ [''--version'']]\<rparr>"]
    show ?thesis by (cases ok) (auto simp: Let_def)
  qed
qed

lemma popen_trace: "popen y cmd s = (r, s') \<Longrightarrow> length (trace s) \<le> length (trace s')"
  by (auto simp: popen_def Let_def split: response.splits if_splits)

text \<open>The address scan, whenever it returns.\<close>

lemma scan_addresses_inet:
  "scan_addresses xs ipv = Inr v \<Longrightarrow> v = (case inet_of xs of [] \<Rightarrow> ipv | a # _ \<Rightarrow> a)"
proof (induction xs)
  case Nil
  then show ?case by simp
next
  case (Cons x xs)
  from Cons.prems obtain fam where fam: "subscript x ''family'' = Inr fam"
    by (auto split: sum.splits)
  then obtain d where d: "x = JObj d" "map_of d ''family'' = Some fam"
    by (cases x) (auto split: option.splits)
  show ?case
  proof (cases "fam = JStr ''inet''")
    case True
    with Cons.prems fam d have "map_of d ''address'' = Some v"
      by (auto split: option.splits)
    with True d show ?thesis by simp
  next
    case False
    with Cons.prems fam have "scan_addresses xs ipv = Inr v" by simp
    from Cons.IH[OF this] False d show ?thesis by simp
  qed
qed

lemma scan_addresses_fails:
  "xs \<noteq> [] \<Longrightarrow> \<forall>x\<in>set xs. \<exists>t. x = JStr t \<Longrightarrow> \<exists>e. scan_addresses xs ipv = Inl e"
  by (cases xs) auto

lemma inet_addresses_lo: "inet_addresses ((''lo'', data) # ifs) = inet_addresses ifs"
  by (simp add: inet_addresses_def)

lemma inet_addresses_Cons:
  "n \<noteq> ''lo'' \<Longrightarrow>
     inet_addresses ((n, data) # ifs) = inet_of (addresses_of data) @ inet_addresses ifs"
  by (simp add: inet_addresses_def)

lemma scan_interfaces_inet:
  "scan_interfaces ifs not_available = Inr v \<Longrightarrow> not_available \<notin> set (inet_addresses ifs) \<Longrightarrow>
     v = first_ipv4 ifs"
proof (induction ifs)
  case Nil
  then show ?case by (simp add: first_ipv4_def inet_addresses_def)
next
  case (Cons i ifs)
  obtain n data where i: "i = (n, data)" by (cases i)
  show ?case
  proof (cases "n = ''lo''")
    case True
    with Cons.prems i have "scan_interfaces ifs not_available = Inr v"
      and "not_available \<notin> set (inet_addresses ifs)"
      by (simp_all add: inet_addresses_lo)
    from Cons.IH[OF this] True i show ?thesis
      by (simp add: first_ipv4_def inet_addresses_lo)
  next
    case False
    from Cons.prems(2) i False
    have na: "not_available \<notin> set (inet_of (addresses_of data))"
      "not_available \<notin> set (inet_addresses ifs)"
      by (simp_all add: inet_addresses_Cons)
    from Cons.prems(1) i False obtain addrs where a: "subscript data ''addresses'' = Inr addrs"
      by (auto split: sum.splits)
    then obtain d where d: "data = JObj d" "map_of d ''addresses'' = Some addrs"
      by (cases data) (auto split: option.splits)
    show ?thesis
    proof (cases "truthy addrs")
      case tv: False
      then have "addresses_of data = [] \<or> (\<exists>xs. addrs = JArr xs \<and> xs = [])"
        using d by (cases addrs) auto
      then have e: "inet_of (addresses_of data) = []" using d by auto
      from Cons.prems(1) i False a tv have "scan_interfaces ifs not_available = Inr v" by simp
      from Cons.IH[OF this na(2)] e False i show ?thesis
        by (simp add: first_ipv4_def inet_addresses_Cons)
    next
      case tv: True
      from Cons.prems(1) i False a tv obtain as ipv' where
        it: "iterate addrs = Inr as" and sa: "scan_addresses as not_available = Inr ipv'"
        and fin: "if ipv' \<noteq> not_available then v = ipv'
                  else scan_interfaces ifs not_available = Inr v"
        by (auto split: sum.splits if_splits)
      have arr: "addrs = JArr as"
      proof (cases addrs)
        case (JArr xs)
        with it show ?thesis by simp
      next
        case (JObj kvs)
        with tv it have "as \<noteq> []" "\<forall>x\<in>set as. \<exists>t. x = JStr t" by auto
        from scan_addresses_fails[OF this, of not_available] sa show ?thesis by auto
      next
        case (JStr t)
        with tv it have "as \<noteq> []" "\<forall>x\<in>set as. \<exists>t. x = JStr t" by auto
        from scan_addresses_fails[OF this, of not_available] sa show ?thesis by auto
      qed (use it in auto)
      with d have ao: "addresses_of data = as" by simp
      note v' = scan_addresses_inet[OF sa]
      show ?thesis
      proof (cases "inet_of as")
        case Nil
        with v' have "ipv' = not_available" by simp
        with fin have "scan_interfaces ifs not_available = Inr v" by simp
        from Cons.IH[OF this na(2)] Nil ao False i show ?thesis
          by (simp add: first_ipv4_def inet_addresses_Cons)
      next
        case (Cons a as')
        with v' have "ipv' = a" by simp
        moreover from Cons na(1) ao have "a \<noteq> not_available" by auto
        ultimately have "v = a" using fin by simp
        with Cons ao False i show ?thesis
          by (simp add: first_ipv4_def inet_addresses_Cons)
      qed
    qed
  qed
qed

lemma not_available_no_ipv4: "\<not> ipv4_value not_available"
  by (simp add: ipv4_value_def not_available_def ipv4_text_def)

section \<open>Deleting: the registry entry goes last\<close>

text \<open>
  Claim C1. Let the name be listed, and let \<open>ev\<close> be the record it resolves to.
  \<^verbatim>\<open>delete_environment\<close> first sends the backend its commands (\<open>backend_delete\<close>: a
  stop when the environment runs, the delete, for Multipass the purge). If one of them
  fails, the operation fails and the registry file is what it was before the call: the
  error is the deletion error wrapping the command's \<^verbatim>\<open>RuntimeError\<close> (a non-zero
  exit, a missing program), and the exception itself when the command could not be run
  for another reason. The registry file can only differ from what it was when every
  backend command has succeeded. And when they have, the registry holds an entry for
  the name and the file can be written, the operation succeeds and exactly that entry
  is gone.
\<close>

theorem delete_registry_only_after_backend_success:
  assumes "list_environments y s = (Inr envs, s1)" and "find_env n envs = Some ev"
  shows "(\<forall>e s2. backend_delete y ev n s1 = (Inl e, s2) \<longrightarrow>
            delete_environment y n s = (Inl (reraise FailedToDelete e), s2)
            \<and> registry_file s2 = registry_file s)
       \<and> (\<forall>m s2. backend_delete y ev n s1 = (Inl (RuntimeError m), s2) \<longrightarrow>
            delete_environment y n s =
              (Inl (RuntimeError (FailedToDelete (RuntimeError m))), s2)
            \<and> registry_file s2 = registry_file s)
       \<and> (registry_file (snd (delete_environment y n s)) \<noteq> registry_file s \<longrightarrow>
            fst (backend_delete y ev n s1) = Inr ())
       \<and> (\<forall>s2 d. backend_delete y ev n s1 = (Inr (), s2) \<and> registry_file s = Registry (JObj d)
                 \<and> map_of d n \<noteq> None \<and> write_result y (trace s2) = Written \<longrightarrow>
            delete_environment y n s =
              (Inr (), s2\<lparr>registry_file := Registry (JObj (AList.delete n d))\<rparr>))"
proof -
  have reg1: "registry_file s1 = registry_file s"
    using assms(1) by (rule list_environments_registry)
  have del: "delete_environment y n s =
               rewrap FailedToDelete (and_then (backend_delete y ev n s1) (\<lambda>_. forget_environment y n))"
    using assms by (simp add: delete_environment_def)
  have fail: "delete_environment y n s = (Inl (reraise FailedToDelete e), s2)
              \<and> registry_file s2 = registry_file s"
    if "backend_delete y ev n s1 = (Inl e, s2)" for e s2
    using that backend_delete_registry[OF that] reg1
    by (simp add: del and_then_def rewrap_def)
  have fail': "delete_environment y n s =
                 (Inl (RuntimeError (FailedToDelete (RuntimeError m))), s2)
               \<and> registry_file s2 = registry_file s"
    if "backend_delete y ev n s1 = (Inl (RuntimeError m), s2)" for m s2
    using fail[OF that] by (simp add: reraise_def)
  have only: "fst (backend_delete y ev n s1) = Inr ()"
    if "registry_file (snd (delete_environment y n s)) \<noteq> registry_file s"
  proof (cases "backend_delete y ev n s1")
    case (Pair r s2)
    show ?thesis
    proof (cases r)
      case (Inl e)
      with Pair fail that show ?thesis by fastforce
    next
      case (Inr u)
      with Pair show ?thesis by simp
    qed
  qed
  have ok: "delete_environment y n s = (Inr (), s2\<lparr>registry_file := Registry (JObj (AList.delete n d))\<rparr>)"
    if "backend_delete y ev n s1 = (Inr (), s2) \<and> registry_file s = Registry (JObj d)
        \<and> map_of d n \<noteq> None \<and> write_result y (trace s2) = Written" for s2 d
  proof -
    have "registry_file s2 = Registry (JObj d)"
      using that backend_delete_registry reg1 by fastforce
    with that show ?thesis
      by (auto simp: del and_then_def rewrap_def forget_environment_def Let_def
                     load_environments_config_def save_environments_config_def)
  qed
  from fail fail' only ok show ?thesis by blast
qed

text \<open>
  In the sample installation: first with a failing \<^verbatim>\<open>multipass delete dev\<close>, then
  with every command succeeding.
\<close>

theorem delete_registry_only_after_backend_success_witness:
  "list_environments (sample_sys [[''multipass'', ''delete'', ''dev'']] []) sample_state =
     (Inr [sample_dev, sample_web], sample_state\<lparr>trace := listing_commands\<rparr>)
   \<and> find_env ''dev'' [sample_dev, sample_web] = Some sample_dev
   \<and> backend_delete (sample_sys [[''multipass'', ''delete'', ''dev'']] []) sample_dev ''dev''
         (sample_state\<lparr>trace := listing_commands\<rparr>) =
       (Inl (RuntimeError (CommandFailed [''multipass'', ''delete'', ''dev''])),
        sample_state\<lparr>trace := listing_commands @
           [[''multipass'', ''stop'', ''dev''], [''multipass'', ''delete'', ''dev'']]\<rparr>)
   \<and> delete_environment (sample_sys [[''multipass'', ''delete'', ''dev'']] []) ''dev'' sample_state =
       (Inl (RuntimeError (FailedToDelete
               (RuntimeError (CommandFailed [''multipass'', ''delete'', ''dev''])))),
        sample_state\<lparr>trace := listing_commands @
           [[''multipass'', ''stop'', ''dev''], [''multipass'', ''delete'', ''dev'']]\<rparr>)
   \<and> registry_file (sample_state\<lparr>trace := listing_commands @
           [[''multipass'', ''stop'', ''dev''], [''multipass'', ''delete'', ''dev'']]\<rparr>) =
       registry_file sample_state
   \<and> list_environments (sample_sys [] []) sample_state =
       (Inr [sample_dev, sample_web], sample_state\<lparr>trace := listing_commands\<rparr>)
   \<and> backend_delete (sample_sys [] []) sample_dev ''dev'' (sample_state\<lparr>trace := listing_commands\<rparr>) =
       (Inr (),
        sample_state\<lparr>trace := listing_commands @
           [[''multipass'', ''stop'', ''dev''], [''multipass'', ''delete'', ''dev''],
            [''multipass'', ''purge'']]\<rparr>)
   \<and> delete_environment (sample_sys [] []) ''dev'' sample_state =
       (Inr (),
        sample_state\<lparr>trace := listing_commands @
           [[''multipass'', ''stop'', ''dev''], [''multipass'', ''delete'', ''dev''],
            [''multipass'', ''purge'']],
          registry_file := Registry (JObj [(''web'', registry_entry ''ubuntu-basic'' ''lxd'')])\<rparr>)
   \<and> registry_file (snd (delete_environment (sample_sys [] []) ''dev'' sample_state)) \<noteq>
       registry_file sample_state
   \<and> fst (backend_delete (sample_sys [] []) sample_dev ''dev''
              (sample_state\<lparr>trace := listing_commands\<rparr>)) = Inr ()"
proof -
  let ?F = "sample_sys [[''multipass'', ''delete'', ''dev'']] []"
  let ?W = "sample_sys [] []"
  let ?S1 = "sample_state\<lparr>trace := listing_commands\<rparr>"
  let ?S2 = "sample_state\<lparr>trace := listing_commands @
           [[''multipass'', ''stop'', ''dev''], [''multipass'', ''delete'', ''dev'']]\<rparr>"
  let ?S3 = "sample_state\<lparr>trace := listing_commands @
           [[''multipass'', ''stop'', ''dev''], [''multipass'', ''delete'', ''dev''],
            [''multipass'', ''purge'']]\<rparr>"
  let ?d = "[(''dev'', registry_entry ''ubuntu-basic'' ''multipass''),
             (''web'', registry_entry ''ubuntu-basic'' ''lxd'')]"
  have hf: "list_environments ?F sample_state = (Inr [sample_dev, sample_web], ?S1)"
    by code_simp
  have hw: "list_environments ?W sample_state = (Inr [sample_dev, sample_web], ?S1)"
    by code_simp
  have d: "find_env ''dev'' [sample_dev, sample_web] = Some sample_dev"
    by (simp add: find_env_def sample_dev_def)
  have bf: "backend_delete ?F sample_dev ''dev'' ?S1 =
              (Inl (RuntimeError (CommandFailed [''multipass'', ''delete'', ''dev''])), ?S2)"
    by code_simp
  have bw: "backend_delete ?W sample_dev ''dev'' ?S1 = (Inr (), ?S3)"
    by code_simp
  have reg: "registry_file sample_state = Registry (JObj ?d)"
    by (simp add: sample_state_def)
  have key: "map_of ?d ''dev'' \<noteq> None" by simp
  have wr: "write_result ?W (trace ?S3) = Written"
    by (simp add: sample_sys_def)
  note TF = delete_registry_only_after_backend_success[OF hf d]
  note TW = delete_registry_only_after_backend_success[OF hw d]
  from conjunct1[OF conjunct2[OF TF]] bf
  have F: "delete_environment ?F ''dev'' sample_state =
             (Inl (RuntimeError (FailedToDelete
                     (RuntimeError (CommandFailed [''multipass'', ''delete'', ''dev''])))), ?S2)
           \<and> registry_file ?S2 = registry_file sample_state"
    by blast
  from conjunct2[OF conjunct2[OF conjunct2[OF TW]]] bw reg key wr
  have W: "delete_environment ?W ''dev'' sample_state =
             (Inr (), ?S3\<lparr>registry_file := Registry (JObj (AList.delete ''dev'' ?d))\<rparr>)"
    by blast
  have W': "?S3\<lparr>registry_file := Registry (JObj (AList.delete ''dev'' ?d))\<rparr> =
            sample_state\<lparr>trace := listing_commands @
              [[''multipass'', ''stop'', ''dev''], [''multipass'', ''delete'', ''dev''],
               [''multipass'', ''purge'']],
              registry_file := Registry (JObj [(''web'', registry_entry ''ubuntu-basic'' ''lxd'')])\<rparr>"
    by (simp add: AList.delete_eq)
  have ne: "registry_file (snd (delete_environment ?W ''dev'' sample_state)) \<noteq>
              registry_file sample_state"
    by (simp add: W reg AList.delete_eq)
  from mp[OF conjunct1[OF conjunct2[OF conjunct2[OF TW]]] ne]
  have ok: "fst (backend_delete ?W sample_dev ''dev'' ?S1) = Inr ()" .
  from hf hw d bf bw F W W' ne ok show ?thesis by simp
qed

section \<open>A backend that cannot be listed\<close>




section \<open>Create, then list\<close>

text \<open>
  Claim C3. When \<^verbatim>\<open>create_environment\<close> has succeeded and \<^verbatim>\<open>list_environments\<close> is
  called in the state it left, every record of the list that carries the created name
  has, as its \<open>template\<close>, the template id that was passed to
  \<^verbatim>\<open>create_environment\<close>. (Success implies a non-empty name, an available backend and
  a template id of the table.)
\<close>

theorem created_environment_lists_its_template:
  assumes "create_environment y c s = (Inr (), s1)"
    and "list_environments y s1 = (Inr envs, s2)"
    and "e \<in> set envs" and "name e = JStr (cfg_name c)"
  shows "template e = JStr (cfg_template c)"
proof -
  from create_environment_ok[OF assms(1)] obtain d where
    d: "registry_file s1 = Registry (JObj d)"
       "map_of d (cfg_name c) = Some (registry_entry (cfg_template c) (cfg_backend c))"
    by blast
  let ?Q = "\<lambda>e. get_environment_template s1 (name e) = Inr (template e)"
  have "\<forall>e\<in>set envs. ?Q e"
  proof -
    have mp: "?Q e" if "registry_file t = registry_file s1" "mp_env y i t = (Inr e, t')" for i t e t'
      using that mp_env_fields[OF that(2)] get_environment_template_cong[OF that(1)] by simp
    have lxd: "?Q e" if "registry_file t = registry_file s1" "lxd_env y i t = (Inr e, t')" for i t e t'
      using that lxd_env_fields[OF that(2)] get_environment_template_cong[OF that(1)] by simp
    from list_environments_inv[OF assms(2), of ?Q] mp lxd show ?thesis by blast
  qed
  with assms(3) have "get_environment_template s1 (name e) = Inr (template e)" by blast
  with assms(4) d show ?thesis
    by (simp add: get_environment_template_def load_environments_config_def registry_entry_def)
qed

theorem created_environment_lists_its_template_witness:
  "fst (create_environment (sample_sys [] []) sample_config fresh_state) = Inr ()
   \<and> fst (list_environments (sample_sys [] [])
              (snd (create_environment (sample_sys [] []) sample_config fresh_state))) =
       Inr [sample_dev, sample_web\<lparr>template := JStr ''Unknown''\<rparr>]
   \<and> name sample_dev = JStr (cfg_name sample_config)
   \<and> cfg_template sample_config = ''ubuntu-basic''
   \<and> template sample_dev = JStr (cfg_template sample_config)"
proof -
  let ?W = "sample_sys [] []"
  let ?S1 = "snd (create_environment ?W sample_config fresh_state)"
  let ?L = "[sample_dev, sample_web\<lparr>template := JStr ''Unknown''\<rparr>]"
  have c: "fst (create_environment ?W sample_config fresh_state) = Inr ()"
    by code_simp
  have l: "fst (list_environments ?W ?S1) = Inr ?L"
    by code_simp
  have c': "create_environment ?W sample_config fresh_state = (Inr (), ?S1)"
    using c by (simp add: prod_eq_iff)
  have l': "list_environments ?W ?S1 = (Inr ?L, snd (list_environments ?W ?S1))"
    using l by (simp add: prod_eq_iff)
  have m: "sample_dev \<in> set ?L" by simp
  have n: "name sample_dev = JStr (cfg_name sample_config)"
    by (simp add: sample_dev_def sample_config_def)
  have t: "cfg_template sample_config = ''ubuntu-basic''"
    by (simp add: sample_config_def)
  from created_environment_lists_its_template[OF c' l' m n] c l n t
  show ?thesis by simp
qed

section \<open>Starting what runs, stopping what is stopped\<close>

text \<open>
  Claim C4, as amended. \<^verbatim>\<open>start_environment\<close> and \<^verbatim>\<open>stop_environment\<close> address an
  environment by its name, which they resolve to the first record of
  \<^verbatim>\<open>list_environments\<close> with that name. When that record is reported \<open>Running\<close>,
  starting it succeeds and leaves the state exactly as the listing left it: no command
  is dispatched after the listing. The same holds for stopping when that record is
  reported \<open>Stopped\<close>. In particular it holds for every listed environment whose name
  no other listed record carries. It does not hold for every listed environment: a
  record behind another one of the same name is never the one addressed, see the
  counterexample below.
\<close>

theorem start_stop_idempotent:
  assumes "list_environments y s = (Inr envs, s1)"
  shows "(\<forall>ev. find_env n envs = Some ev \<and> status ev = ''Running'' \<longrightarrow>
            start_environment y n s = (Inr (), s1))
       \<and> (\<forall>ev. find_env n envs = Some ev \<and> status ev = ''Stopped'' \<longrightarrow>
            stop_environment y n s = (Inr (), s1))
       \<and> (\<forall>ev\<in>set envs. name ev = JStr n \<and> (\<forall>e\<in>set envs. name e = JStr n \<longrightarrow> e = ev) \<longrightarrow>
            (status ev = ''Running'' \<longrightarrow> start_environment y n s = (Inr (), s1))
            \<and> (status ev = ''Stopped'' \<longrightarrow> stop_environment y n s = (Inr (), s1)))"
proof -
  have first: "find_env n envs = Some ev"
    if "ev \<in> set envs" "name ev = JStr n" "\<forall>e\<in>set envs. name e = JStr n \<longrightarrow> e = ev" for ev
  proof (cases "find_env n envs")
    case None
    with that(1,2) show ?thesis by (auto simp: find_env_def find_None_iff)
  next
    case (Some e)
    then have "e \<in> set envs \<and> name e = JStr n"
      by (auto simp: find_env_def find_Some_iff)
    with that(3) Some show ?thesis by simp
  qed
  have run: "start_environment y n s = (Inr (), s1)"
    if "find_env n envs = Some ev" "status ev = ''Running''" for ev
    using assms that by (simp add: start_environment_def)
  have halt: "stop_environment y n s = (Inr (), s1)"
    if "find_env n envs = Some ev" "status ev = ''Stopped''" for ev
    using assms that by (simp add: stop_environment_def)
  show ?thesis using first run halt by blast
qed

theorem start_stop_idempotent_witness:
  "list_environments (sample_sys [] []) sample_state =
     (Inr [sample_dev, sample_web], sample_state\<lparr>trace := listing_commands\<rparr>)
   \<and> find_env ''dev'' [sample_dev, sample_web] = Some sample_dev
   \<and> status sample_dev = ''Running''
   \<and> start_environment (sample_sys [] []) ''dev'' sample_state =
       (Inr (), sample_state\<lparr>trace := listing_commands\<rparr>)
   \<and> find_env ''web'' [sample_dev, sample_web] = Some sample_web
   \<and> status sample_web = ''Stopped''
   \<and> name sample_web = JStr ''web'' \<and> name sample_dev \<noteq> JStr ''web''
   \<and> stop_environment (sample_sys [] []) ''web'' sample_state =
       (Inr (), sample_state\<lparr>trace := listing_commands\<rparr>)"
proof -
  have h: "list_environments (sample_sys [] []) sample_state =
             (Inr [sample_dev, sample_web], sample_state\<lparr>trace := listing_commands\<rparr>)"
    by code_simp
  have d: "find_env ''dev'' [sample_dev, sample_web] = Some sample_dev"
    by (simp add: find_env_def sample_dev_def)
  have w: "find_env ''web'' [sample_dev, sample_web] = Some sample_web"
    by (simp add: find_env_def sample_dev_def sample_web_def)
  have sd: "status sample_dev = ''Running''" by (simp add: sample_dev_def)
  have sw: "status sample_web = ''Stopped''" by (simp add: sample_web_def)
  have nw: "name sample_web = JStr ''web''" by (simp add: sample_web_def)
  have nd: "name sample_dev \<noteq> JStr ''web''" by (simp add: sample_dev_def)
  from conjunct1[OF start_stop_idempotent[OF h, of "''dev''"]] d sd
  have r1: "start_environment (sample_sys [] []) ''dev'' sample_state =
              (Inr (), sample_state\<lparr>trace := listing_commands\<rparr>)"
    by blast
  from conjunct2[OF conjunct2[OF start_stop_idempotent[OF h, of "''web''"]]] nw nd sw
  have r2: "stop_environment (sample_sys [] []) ''web'' sample_state =
              (Inr (), sample_state\<lparr>trace := listing_commands\<rparr>)"
    by auto
  from h d sd r1 w sw nw nd r2 show ?thesis by simp
qed

text \<open>
  The claim as worded, for every environment that the listing reports, fails on a
  machine where both backends hold an environment named \<open>x\<close>. With the Multipass
  instance stopped and the LXD container running, the listing reports the LXD record
  as \<open>Running\<close>, and starting \<open>x\<close> dispatches \<^verbatim>\<open>multipass start x\<close>: the name
  resolves to the Multipass record. With the Multipass instance running and the LXD
  container stopped, the listing reports the LXD record as \<open>Stopped\<close>, and stopping
  \<open>x\<close> dispatches \<^verbatim>\<open>multipass stop x\<close>.
\<close>

theorem start_stop_idempotent_counterexample:
  "list_environments (twin_sys ''Stopped'' ''Running'') fresh_state =
     (Inr [twin_env ''multipass'' ''Stopped'', twin_env ''lxd'' ''Running''],
      fresh_state\<lparr>trace := twin_listing\<rparr>)
   \<and> name (twin_env ''lxd'' ''Running'') = JStr ''x''
   \<and> status (twin_env ''lxd'' ''Running'') = ''Running''
   \<and> start_environment (twin_sys ''Stopped'' ''Running'') ''x'' fresh_state =
       (Inr (), fresh_state\<lparr>trace := twin_listing @ [[''multipass'', ''start'', ''x'']]\<rparr>)
   \<and> list_environments (twin_sys ''Running'' ''Stopped'') fresh_state =
       (Inr [twin_env ''multipass'' ''Running'', twin_env ''lxd'' ''Stopped''],
        fresh_state\<lparr>trace := twin_listing\<rparr>)
   \<and> name (twin_env ''lxd'' ''Stopped'') = JStr ''x''
   \<and> status (twin_env ''lxd'' ''Stopped'') = ''Stopped''
   \<and> stop_environment (twin_sys ''Running'' ''Stopped'') ''x'' fresh_state =
       (Inr (), fresh_state\<lparr>trace := twin_listing @ [[''multipass'', ''stop'', ''x'']]\<rparr>)"
  by code_simp

section \<open>The address of a container\<close>

text \<open>
  Claim C5. Take a container for which the listing builds a record, and whose state
  holds a network object; let \<open>ifs\<close> be its interfaces, in the reported order. The
  addresses that the backend reports with family \<open>inet\<close> are IPv4 addresses in
  dotted-decimal notation; this is supposed of those on the interfaces other than
  \<open>lo\<close>, and nothing is supposed of \<open>lo\<close> or of the addresses of another family.
  Then the \<open>ip\<close> of the record is the first address of family \<open>inet\<close> found when the
  interfaces other than \<open>lo\<close> are gone through in their order, each with its addresses
  in their order, and the text \<open>Not available\<close> when there is none.
\<close>

theorem container_ip_selection:
  assumes "lxd_env y container s = (Inr e, s')"
    and "subscript container ''state'' = Inr st"
    and "subscript st ''network'' = Inr (JObj ifs)"
    and "\<forall>a\<in>set (inet_addresses ifs). ipv4_value a"
  shows "ip e = first_ipv4 ifs"
proof -
  from assms(1) have ipe: "lxd_ip container = Inr (ip e)"
    by (auto simp: lxd_env_def Let_def split: sum.splits prod.splits)
  from assms(3) have tst: "truthy st"
    by (cases st) (auto split: option.splits)
  from assms(4) not_available_no_ipv4 have na: "not_available \<notin> set (inet_addresses ifs)"
    by blast
  show ?thesis
  proof (cases "ifs = []")
    case True
    with ipe assms(2,3) tst show ?thesis
      by (simp add: lxd_ip_def first_ipv4_def inet_addresses_def)
  next
    case False
    with ipe assms(2,3) tst have "scan_interfaces ifs not_available = Inr (ip e)"
      by (simp add: lxd_ip_def)
    from scan_interfaces_inet[OF this na] show ?thesis .
  qed
qed

text \<open>
  On the sample container the loopback address is passed over and, of the two
  addresses of \<open>eth0\<close>, the IPv4 one is taken. On the second container \<open>eth0\<close> has no
  IPv4 address and the first of the two of \<open>eth1\<close> is taken. The third has none, and
  its record carries \<open>Not available\<close>.
\<close>

theorem container_ip_selection_witness:
  "lxd_env (sample_sys [] []) sample_container sample_state =
     (Inr sample_web, sample_state\<lparr>trace := [[''lxc'', ''config'', ''show'', ''web'']]\<rparr>)
   \<and> subscript sample_container ''state'' = Inr (JObj [(''network'', JObj sample_interfaces)])
   \<and> inet_addresses sample_interfaces = [JStr ''10.0.3.7'']
   \<and> ipv4_value (JStr ''10.0.3.7'')
   \<and> ip sample_web = JStr ''10.0.3.7''
   \<and> first_ipv4 sample_interfaces = JStr ''10.0.3.7''
   \<and> lxd_env (sample_sys [] []) bridged_container sample_state =
       (Inr (sample_web\<lparr>status := ''Running'', ip := JStr ''10.0.0.2''\<rparr>),
        sample_state\<lparr>trace := [[''lxc'', ''config'', ''show'', ''web'']]\<rparr>)
   \<and> inet_addresses bridged_interfaces = [JStr ''10.0.0.2'', JStr ''10.0.0.3'']
   \<and> ipv4_value (JStr ''10.0.0.2'') \<and> ipv4_value (JStr ''10.0.0.3'')
   \<and> first_ipv4 bridged_interfaces = JStr ''10.0.0.2''
   \<and> lxd_env (sample_sys [] []) isolated_container sample_state =
       (Inr (sample_web\<lparr>status := ''Running'', ip := JStr ''Not available''\<rparr>),
        sample_state\<lparr>trace := [[''lxc'', ''config'', ''show'', ''web'']]\<rparr>)
   \<and> inet_addresses isolated_interfaces = []
   \<and> first_ipv4 isolated_interfaces = JStr ''Not available''"
proof -
  let ?S = "sample_state\<lparr>trace := [[''lxc'', ''config'', ''show'', ''web'']]\<rparr>"
  let ?B = "sample_web\<lparr>status := ''Running'', ip := JStr ''10.0.0.2''\<rparr>"
  let ?I = "sample_web\<lparr>status := ''Running'', ip := JStr ''Not available''\<rparr>"
  have a1: "lxd_env (sample_sys [] []) sample_container sample_state = (Inr sample_web, ?S)"
    by code_simp
  have a2: "subscript sample_container ''state'' = Inr (JObj [(''network'', JObj sample_interfaces)])"
    by (simp add: sample_container_def sample_network_def)
  have a3: "subscript (JObj [(''network'', JObj sample_interfaces)]) ''network'' =
              Inr (JObj sample_interfaces)"
    by simp
  have a4: "inet_addresses sample_interfaces = [JStr ''10.0.3.7'']" by code_simp
  have v1: "ipv4_value (JStr ''10.0.3.7'')" by code_simp
  have a5: "\<forall>a\<in>set (inet_addresses sample_interfaces). ipv4_value a"
    using a4 v1 by simp
  have b1: "lxd_env (sample_sys [] []) bridged_container sample_state = (Inr ?B, ?S)"
    by code_simp
  have b2: "subscript bridged_container ''state'' = Inr (JObj [(''network'', JObj bridged_interfaces)])"
    by (simp add: bridged_container_def)
  have b3: "subscript (JObj [(''network'', JObj bridged_interfaces)]) ''network'' =
              Inr (JObj bridged_interfaces)"
    by simp
  have b4: "inet_addresses bridged_interfaces = [JStr ''10.0.0.2'', JStr ''10.0.0.3'']"
    by code_simp
  have v2: "ipv4_value (JStr ''10.0.0.2'')" by code_simp
  have v3: "ipv4_value (JStr ''10.0.0.3'')" by code_simp
  have b5: "\<forall>a\<in>set (inet_addresses bridged_interfaces). ipv4_value a"
    using b4 v2 v3 by simp
  have c1: "lxd_env (sample_sys [] []) isolated_container sample_state = (Inr ?I, ?S)"
    by code_simp
  have c2: "subscript isolated_container ''state'' = Inr (JObj [(''network'', JObj isolated_interfaces)])"
    by (simp add: isolated_container_def)
  have c3: "subscript (JObj [(''network'', JObj isolated_interfaces)]) ''network'' =
              Inr (JObj isolated_interfaces)"
    by simp
  have c4: "inet_addresses isolated_interfaces = []" by code_simp
  have c5: "\<forall>a\<in>set (inet_addresses isolated_interfaces). ipv4_value a"
    using c4 by simp
  have A: "ip sample_web = first_ipv4 sample_interfaces"
    by (rule container_ip_selection[OF a1 a2 a3 a5])
  have B: "ip ?B = first_ipv4 bridged_interfaces"
    by (rule container_ip_selection[OF b1 b2 b3 b5])
  have C: "ip ?I = first_ipv4 isolated_interfaces"
    by (rule container_ip_selection[OF c1 c2 c3 c5])
  have ipw: "ip sample_web = JStr ''10.0.3.7''" by (simp add: sample_web_def)
  from A ipw have A': "first_ipv4 sample_interfaces = JStr ''10.0.3.7''" by simp
  from B have B': "first_ipv4 bridged_interfaces = JStr ''10.0.0.2''" by simp
  from C have C': "first_ipv4 isolated_interfaces = JStr ''Not available''" by simp
  from a1 a2 a4 v1 ipw A' b1 b4 v2 v3 B' c1 c4 C' show ?thesis by simp
qed

section \<open>Creating: what makes it fail, and when the registry is written\<close>

text \<open>
  Claim C6. \<^verbatim>\<open>create_environment\<close> fails on an empty name (the name-required error,
  before any command); on a non-empty name whose backend fails the availability probe
  (the unavailable-backend error, or the probe's own exception when the probe could
  not be run at all); and on a template id that is not in the table
  (always an error; the template-not-found error once name and probe have passed). When
  a step of the provisioning raises, the error is passed on wrapped as the creation
  failure, and the registry file is what it was. In each of these cases the registry
  file is untouched; it can only differ from what it was when the provisioning has
  fully succeeded.
\<close>

theorem create_environment_failures:
  "(cfg_name c = [] \<longrightarrow> create_environment y c s = (Inl (ValueError NameRequired), s))
   \<and> (\<forall>s1. cfg_name c \<noteq> [] \<and> check_backend_available y (cfg_backend c) s = (Inr False, s1) \<longrightarrow>
         create_environment y c s = (Inl (RuntimeError (BackendNotAvailable (cfg_backend c))), s1)
         \<and> registry_file s1 = registry_file s)
   \<and> (\<forall>e s1. cfg_name c \<noteq> [] \<and> check_backend_available y (cfg_backend c) s = (Inl e, s1) \<longrightarrow>
         create_environment y c s = (Inl e, s1) \<and> registry_file s1 = registry_file s)
   \<and> (get_template (templates y) (cfg_template c) = None \<longrightarrow>
         (\<exists>e. fst (create_environment y c s) = Inl e)
         \<and> registry_file (snd (create_environment y c s)) = registry_file s)
   \<and> (\<forall>s1. cfg_name c \<noteq> [] \<and> check_backend_available y (cfg_backend c) s = (Inr True, s1)
            \<and> get_template (templates y) (cfg_template c) = None \<longrightarrow>
         create_environment y c s = (Inl (ValueError (TemplateNotFound (cfg_template c))), s1))
   \<and> (\<forall>s1 tmpl e s2. cfg_name c \<noteq> [] \<and> check_backend_available y (cfg_backend c) s = (Inr True, s1)
            \<and> get_template (templates y) (cfg_template c) = Some tmpl
            \<and> provision y c tmpl s1 = (Inl e, s2) \<longrightarrow>
         create_environment y c s = (Inl (RuntimeError (FailedToCreate e)), s2)
         \<and> registry_file s2 = registry_file s)
   \<and> (registry_file (snd (create_environment y c s)) \<noteq> registry_file s \<longrightarrow>
         (\<exists>s1 tmpl s2. check_backend_available y (cfg_backend c) s = (Inr True, s1)
            \<and> get_template (templates y) (cfg_template c) = Some tmpl
            \<and> provision y c tmpl s1 = (Inr (), s2)))"
proof (intro conjI allI impI)
  assume "cfg_name c = []"
  then show "create_environment y c s = (Inl (ValueError NameRequired), s)"
    by (simp add: create_environment_def)
next
  fix s1 assume a: "cfg_name c \<noteq> [] \<and> check_backend_available y (cfg_backend c) s = (Inr False, s1)"
  then show "create_environment y c s = (Inl (RuntimeError (BackendNotAvailable (cfg_backend c))), s1)"
    by (simp add: create_environment_def)
  from a show "registry_file s1 = registry_file s"
    using check_backend_registry by blast
next
  fix e s1 assume a: "cfg_name c \<noteq> [] \<and> check_backend_available y (cfg_backend c) s = (Inl e, s1)"
  then show "create_environment y c s = (Inl e, s1)"
    by (simp add: create_environment_def)
  from a show "registry_file s1 = registry_file s"
    using check_backend_registry by blast
next
  assume a: "get_template (templates y) (cfg_template c) = None"
  obtain av s1 where ch: "check_backend_available y (cfg_backend c) s = (av, s1)"
    by (cases "check_backend_available y (cfg_backend c) s")
  from check_backend_registry[OF ch] have r1: "registry_file s1 = registry_file s" .
  from a ch r1 show "\<exists>e. fst (create_environment y c s) = Inl e"
    by (cases av) (auto simp: create_environment_def split: bool.splits)
  from a ch r1 show "registry_file (snd (create_environment y c s)) = registry_file s"
    by (cases av) (auto simp: create_environment_def split: bool.splits)
next
  fix s1 assume "cfg_name c \<noteq> [] \<and> check_backend_available y (cfg_backend c) s = (Inr True, s1)
            \<and> get_template (templates y) (cfg_template c) = None"
  then show "create_environment y c s = (Inl (ValueError (TemplateNotFound (cfg_template c))), s1)"
    by (simp add: create_environment_def)
next
  fix s1 tmpl e s2
  assume a: "cfg_name c \<noteq> [] \<and> check_backend_available y (cfg_backend c) s = (Inr True, s1)
            \<and> get_template (templates y) (cfg_template c) = Some tmpl
            \<and> provision y c tmpl s1 = (Inl e, s2)"
  then show "create_environment y c s = (Inl (RuntimeError (FailedToCreate e)), s2)"
    by (simp add: create_environment_def and_then_def)
  from a show "registry_file s2 = registry_file s"
    using check_backend_registry provision_registry by fastforce
next
  assume ch: "registry_file (snd (create_environment y c s)) \<noteq> registry_file s"
  obtain av s1 where c1: "check_backend_available y (cfg_backend c) s = (av, s1)"
    by (cases "check_backend_available y (cfg_backend c) s")
  from check_backend_registry[OF c1] have r1: "registry_file s1 = registry_file s" .
  from ch have ne: "cfg_name c \<noteq> []" by (auto simp: create_environment_def)
  from ch ne c1 r1 have av: "av = Inr True"
    by (cases av) (auto simp: create_environment_def split: bool.splits)
  from ch ne c1 r1 av obtain tmpl where t: "get_template (templates y) (cfg_template c) = Some tmpl"
    by (cases "get_template (templates y) (cfg_template c)") (auto simp: create_environment_def)
  obtain r s2 where p: "provision y c tmpl s1 = (r, s2)" by (cases "provision y c tmpl s1")
  from provision_registry[OF p] r1 have r2: "registry_file s2 = registry_file s" by simp
  have "r = Inr ()"
  proof (cases r)
    case (Inl e)
    with ch ne c1 av t p r2 show ?thesis by (auto simp: create_environment_def and_then_def)
  qed simp
  with c1 av t p show "\<exists>s1 tmpl s2. check_backend_available y (cfg_backend c) s = (Inr True, s1)
            \<and> get_template (templates y) (cfg_template c) = Some tmpl
            \<and> provision y c tmpl s1 = (Inr (), s2)" by auto
qed

text \<open>
  In the sample installation: an empty name; Multipass not installed; a Multipass
  probe that cannot be started; an unknown template id; a failing \<^verbatim>\<open>apt update\<close> in the guest; and a creation that succeeds.
\<close>

theorem create_environment_failures_witness:
  "cfg_name (sample_config\<lparr>cfg_name := []\<rparr>) = []
   \<and> create_environment (sample_sys [] []) (sample_config\<lparr>cfg_name := []\<rparr>) sample_state =
       (Inl (ValueError NameRequired), sample_state)
   \<and> check_backend_available (sample_sys [[''multipass'', ''version'']] []) ''multipass'' sample_state =
       (Inr False, sample_state\<lparr>trace := [[''multipass'', ''version'']]\<rparr>)
   \<and> create_environment (sample_sys [[''multipass'', ''version'']] []) sample_config sample_state =
       (Inl (RuntimeError (BackendNotAvailable ''multipass'')),
        sample_state\<lparr>trace := [[''multipass'', ''version'']]\<rparr>)
   \<and> check_backend_available denied_sys ''multipass'' sample_state =
       (Inl PermissionError, sample_state\<lparr>trace := [[''multipass'', ''version'']]\<rparr>)
   \<and> create_environment denied_sys sample_config sample_state =
       (Inl PermissionError, sample_state\<lparr>trace := [[''multipass'', ''version'']]\<rparr>)
   \<and> get_template (templates (sample_sys [] [])) ''no-such-template'' = None
   \<and> create_environment (sample_sys [] []) (sample_config\<lparr>cfg_template := ''no-such-template''\<rparr>)
         sample_state =
       (Inl (ValueError (TemplateNotFound ''no-such-template'')),
        sample_state\<lparr>trace := [[''multipass'', ''version'']]\<rparr>)
   \<and> registry_file (snd (create_environment (sample_sys [] [])
                              (sample_config\<lparr>cfg_template := ''no-such-template''\<rparr>) sample_state)) =
       registry_file sample_state
   \<and> fst (provision (sample_sys [[''multipass'', ''exec'', ''dev'', ''--'', ''apt'', ''update'']] [])
              sample_config ubuntu_basic (sample_state\<lparr>trace := [[''multipass'', ''version'']]\<rparr>)) =
       Inl (RuntimeError (CommandFailed [''multipass'', ''exec'', ''dev'', ''--'', ''apt'', ''update'']))
   \<and> fst (create_environment (sample_sys [[''multipass'', ''exec'', ''dev'', ''--'', ''apt'', ''update'']] [])
              sample_config sample_state) =
       Inl (RuntimeError (FailedToCreate
              (RuntimeError (CommandFailed [''multipass'', ''exec'', ''dev'', ''--'', ''apt'', ''update'']))))
   \<and> registry_file
         (snd (provision (sample_sys [[''multipass'', ''exec'', ''dev'', ''--'', ''apt'', ''update'']] [])
                 sample_config ubuntu_basic (sample_state\<lparr>trace := [[''multipass'', ''version'']]\<rparr>))) =
       registry_file sample_state
   \<and> registry_file (snd (create_environment (sample_sys [] []) sample_config fresh_state)) \<noteq>
       registry_file fresh_state
   \<and> (\<exists>s1 tmpl s2.
         check_backend_available (sample_sys [] []) (cfg_backend sample_config) fresh_state = (Inr True, s1)
         \<and> get_template (templates (sample_sys [] [])) (cfg_template sample_config) = Some tmpl
         \<and> provision (sample_sys [] []) sample_config tmpl s1 = (Inr (), s2))"
proof -
  let ?W = "sample_sys [] []"
  let ?A = "sample_sys [[''multipass'', ''version'']] []"
  let ?P = "sample_sys [[''multipass'', ''exec'', ''dev'', ''--'', ''apt'', ''update'']] []"
  let ?S1 = "sample_state\<lparr>trace := [[''multipass'', ''version'']]\<rparr>"
  let ?cN = "sample_config\<lparr>cfg_name := []\<rparr>"
  let ?cT = "sample_config\<lparr>cfg_template := ''no-such-template''\<rparr>"
  let ?cmd = "[''multipass'', ''exec'', ''dev'', ''--'', ''apt'', ''update'']"
  have n0: "cfg_name ?cN = []" by simp
  have n1: "cfg_name sample_config \<noteq> []" by (simp add: sample_config_def)
  have bk: "cfg_backend sample_config = ''multipass''" by (simp add: sample_config_def)
  have tp: "cfg_template sample_config = ''ubuntu-basic''" by (simp add: sample_config_def)
  have ca: "check_backend_available ?A (cfg_backend sample_config) sample_state = (Inr False, ?S1)"
    by code_simp
  have cw: "check_backend_available ?W (cfg_backend ?cT) sample_state = (Inr True, ?S1)"
    by code_simp
  have cp: "check_backend_available ?P (cfg_backend sample_config) sample_state = (Inr True, ?S1)"
    by code_simp
  have t0: "get_template (templates ?W) (cfg_template ?cT) = None"
    by (simp add: get_template_def sample_sys_def)
  have t1: "get_template (templates ?P) (cfg_template sample_config) = Some ubuntu_basic"
    by (simp add: get_template_def sample_sys_def sample_config_def)
  have pf: "fst (provision ?P sample_config ubuntu_basic ?S1) = Inl (RuntimeError (CommandFailed ?cmd))"
    by code_simp
  have pf': "provision ?P sample_config ubuntu_basic ?S1 =
               (Inl (RuntimeError (CommandFailed ?cmd)), snd (provision ?P sample_config ubuntu_basic ?S1))"
    using pf by (simp add: prod_eq_iff)
  have ch: "registry_file (snd (create_environment ?W sample_config fresh_state)) \<noteq>
              registry_file fresh_state"
    by code_simp
  have cd: "check_backend_available denied_sys (cfg_backend sample_config) sample_state =
              (Inl PermissionError, ?S1)"
    by code_simp
  note TD = create_environment_failures[of sample_config denied_sys sample_state]
  from conjunct1[OF conjunct2[OF conjunct2[OF TD]]] n1 cd
  have rd: "create_environment denied_sys sample_config sample_state = (Inl PermissionError, ?S1)"
    by blast
  have cd': "check_backend_available denied_sys ''multipass'' sample_state =
               (Inl PermissionError, ?S1)"
    using cd bk by simp
  note TN = create_environment_failures[of ?cN ?W sample_state]
  note TA = create_environment_failures[of sample_config ?A sample_state]
  note TT = create_environment_failures[of ?cT ?W sample_state]
  note TP = create_environment_failures[of sample_config ?P sample_state]
  note TW = create_environment_failures[of sample_config ?W fresh_state]
  from conjunct1[OF TN] n0
  have r1: "create_environment ?W ?cN sample_state = (Inl (ValueError NameRequired), sample_state)"
    by blast
  from conjunct1[OF conjunct2[OF TA]] n1 ca
  have r2: "create_environment ?A sample_config sample_state =
              (Inl (RuntimeError (BackendNotAvailable (cfg_backend sample_config))), ?S1)"
    by blast
  from conjunct1[OF conjunct2[OF conjunct2[OF conjunct2[OF TT]]]] t0
  have r3: "registry_file (snd (create_environment ?W ?cT sample_state)) = registry_file sample_state"
    by blast
  have n1T: "cfg_name ?cT \<noteq> []" using n1 by simp
  from conjunct1[OF conjunct2[OF conjunct2[OF conjunct2[OF conjunct2[OF TT]]]]] n1T cw t0
  have r4: "create_environment ?W ?cT sample_state =
              (Inl (ValueError (TemplateNotFound (cfg_template ?cT))), ?S1)"
    by blast
  from conjunct1[OF conjunct2[OF conjunct2[OF conjunct2[OF conjunct2[OF conjunct2[OF TP]]]]]] n1 cp t1 pf'
  have r5: "create_environment ?P sample_config sample_state =
              (Inl (RuntimeError (FailedToCreate (RuntimeError (CommandFailed ?cmd)))),
               snd (provision ?P sample_config ubuntu_basic ?S1))
            \<and> registry_file (snd (provision ?P sample_config ubuntu_basic ?S1)) = registry_file sample_state"
    by blast
  from mp[OF conjunct2[OF conjunct2[OF conjunct2[OF conjunct2[OF conjunct2[OF conjunct2[OF TW]]]]]] ch]
  have r6: "\<exists>s1 tmpl s2.
         check_backend_available ?W (cfg_backend sample_config) fresh_state = (Inr True, s1)
         \<and> get_template (templates ?W) (cfg_template sample_config) = Some tmpl
         \<and> provision ?W sample_config tmpl s1 = (Inr (), s2)" .
  have ca': "check_backend_available ?A ''multipass'' sample_state = (Inr False, ?S1)"
    using ca bk by simp
  have t0': "get_template (templates ?W) ''no-such-template'' = None"
    using t0 by simp
  have r2': "create_environment ?A sample_config sample_state =
              (Inl (RuntimeError (BackendNotAvailable ''multipass'')), ?S1)"
    using r2 bk by simp
  have r4': "create_environment ?W ?cT sample_state =
              (Inl (ValueError (TemplateNotFound ''no-such-template'')), ?S1)"
    using r4 by simp
  have r5a: "fst (create_environment ?P sample_config sample_state) =
              Inl (RuntimeError (FailedToCreate (RuntimeError (CommandFailed ?cmd))))"
    using r5 by simp
  have r5b: "registry_file (snd (provision ?P sample_config ubuntu_basic ?S1)) = registry_file sample_state"
    using r5 by simp
  show ?thesis
    by (intro conjI) (rule n0 r1 ca' r2' cd' rd t0' r4' r3 pf r5a r5b ch r6)+
qed

section \<open>Opening a shell needs a running environment\<close>

text \<open>
  Claim C7, as amended. \<^verbatim>\<open>open_shell\<close> resolves the name to the first record of
  \<^verbatim>\<open>list_environments\<close> with that name. When that record has a status other than
  \<open>Running\<close> (\<open>Stopped\<close> included), it fails with the not-running error and the
  state is the one the listing left: no terminal was probed and nothing was spawned.
  When no record has the name it fails with the not-found error, again with nothing
  dispatched. So a state that differs from the listing's means the record found for
  the name is \<open>Running\<close>; and for such a record at least one probe is dispatched. In
  particular the not-running error is what every listed environment gets that is not
  \<open>Running\<close> and whose name no other listed record carries. It is not what every
  listed environment gets that is not \<open>Running\<close>: see the counterexample below.
\<close>

theorem open_shell_requires_running:
  assumes "list_environments y s = (Inr envs, s1)"
  shows "(\<forall>ev. find_env n envs = Some ev \<and> status ev \<noteq> ''Running'' \<longrightarrow>
            open_shell y n s = (Inl (RuntimeError (NotRunning n)), s1))
       \<and> (find_env n envs = None \<longrightarrow> open_shell y n s = (Inl (RuntimeError (EnvNotFound n)), s1))
       \<and> (snd (open_shell y n s) \<noteq> s1 \<longrightarrow>
            (\<exists>ev. find_env n envs = Some ev \<and> status ev = ''Running''))
       \<and> (\<forall>ev. find_env n envs = Some ev \<and> status ev = ''Running'' \<longrightarrow>
            length (trace s1) < length (trace (snd (open_shell y n s))))
       \<and> (\<forall>ev\<in>set envs. name ev = JStr n \<and> status ev \<noteq> ''Running''
               \<and> (\<forall>e\<in>set envs. name e = JStr n \<longrightarrow> e = ev) \<longrightarrow>
            open_shell y n s = (Inl (RuntimeError (NotRunning n)), s1))"
proof (intro conjI allI impI ballI)
  fix ev assume "find_env n envs = Some ev \<and> status ev \<noteq> ''Running''"
  with assms show "open_shell y n s = (Inl (RuntimeError (NotRunning n)), s1)"
    by (simp add: open_shell_def)
next
  assume "find_env n envs = None"
  with assms show "open_shell y n s = (Inl (RuntimeError (EnvNotFound n)), s1)"
    by (simp add: open_shell_def)
next
  assume "snd (open_shell y n s) \<noteq> s1"
  with assms show "\<exists>ev. find_env n envs = Some ev \<and> status ev = ''Running''"
    by (auto simp: open_shell_def split: option.splits if_splits)
next
  fix ev assume a: "find_env n envs = Some ev \<and> status ev = ''Running''"
  obtain r s2 where sp: "spawn_shell y ev n s1 = (r, s2)" by (cases "spawn_shell y ev n s1")
  have "length (trace s1) < length (trace s2)"
    using sp probe_terminals_trace[of y terminals s1] popen_trace
    by (auto simp: spawn_shell_def terminals_def split: prod.splits sum.splits option.splits if_splits)
       force+
  with a assms sp show "length (trace s1) < length (trace (snd (open_shell y n s)))"
    by (auto simp: open_shell_def split: sum.splits)
next
  fix ev
  assume m: "ev \<in> set envs"
    and a: "name ev = JStr n \<and> status ev \<noteq> ''Running''
              \<and> (\<forall>e\<in>set envs. name e = JStr n \<longrightarrow> e = ev)"
  have "find_env n envs = Some ev"
  proof (cases "find_env n envs")
    case None
    with m a show ?thesis by (auto simp: find_env_def find_None_iff)
  next
    case (Some e)
    then have "e \<in> set envs \<and> name e = JStr n"
      by (auto simp: find_env_def find_Some_iff)
    with a Some show ?thesis by simp
  qed
  with a assms show "open_shell y n s = (Inl (RuntimeError (NotRunning n)), s1)"
    by (simp add: open_shell_def)
qed

theorem open_shell_requires_running_witness:
  "list_environments (sample_sys [] []) sample_state =
     (Inr [sample_dev, sample_web], sample_state\<lparr>trace := listing_commands\<rparr>)
   \<and> find_env ''web'' [sample_dev, sample_web] = Some sample_web
   \<and> status sample_web \<noteq> ''Running''
   \<and> open_shell (sample_sys [] []) ''web'' sample_state =
       (Inl (RuntimeError (NotRunning ''web'')), sample_state\<lparr>trace := listing_commands\<rparr>)
   \<and> name sample_web = JStr ''web'' \<and> name sample_dev \<noteq> JStr ''web''
   \<and> find_env ''box'' [sample_dev, sample_web] = None
   \<and> open_shell (sample_sys [] []) ''box'' sample_state =
       (Inl (RuntimeError (EnvNotFound ''box'')), sample_state\<lparr>trace := listing_commands\<rparr>)
   \<and> find_env ''dev'' [sample_dev, sample_web] = Some sample_dev
   \<and> status sample_dev = ''Running''
   \<and> snd (open_shell (sample_sys [] []) ''dev'' sample_state) \<noteq>
       sample_state\<lparr>trace := listing_commands\<rparr>
   \<and> length (trace (sample_state\<lparr>trace := listing_commands\<rparr>)) <
       length (trace (snd (open_shell (sample_sys [] []) ''dev'' sample_state)))"
proof -
  have h: "list_environments (sample_sys [] []) sample_state =
             (Inr [sample_dev, sample_web], sample_state\<lparr>trace := listing_commands\<rparr>)"
    by code_simp
  have d: "find_env ''dev'' [sample_dev, sample_web] = Some sample_dev"
    by (simp add: find_env_def sample_dev_def)
  have w: "find_env ''web'' [sample_dev, sample_web] = Some sample_web"
    by (simp add: find_env_def sample_dev_def sample_web_def)
  have b: "find_env ''box'' [sample_dev, sample_web] = None"
    by (simp add: find_env_def sample_dev_def sample_web_def)
  have sd: "status sample_dev = ''Running''" by (simp add: sample_dev_def)
  have sw: "status sample_web \<noteq> ''Running''" by (simp add: sample_web_def)
  have ne: "snd (open_shell (sample_sys [] []) ''dev'' sample_state) \<noteq>
              sample_state\<lparr>trace := listing_commands\<rparr>"
    by code_simp
  have nw: "name sample_web = JStr ''web''" by (simp add: sample_web_def)
  have nd: "name sample_dev \<noteq> JStr ''web''" by (simp add: sample_dev_def)
  from conjunct2[OF conjunct2[OF conjunct2[OF conjunct2[OF
         open_shell_requires_running[OF h, of "''web''"]]]]] nw nd sw
  have u: "open_shell (sample_sys [] []) ''web'' sample_state =
             (Inl (RuntimeError (NotRunning ''web'')), sample_state\<lparr>trace := listing_commands\<rparr>)"
    by auto
  from open_shell_requires_running[OF h, of "''box''"]
       open_shell_requires_running[OF h, of "''dev''"]
       h d w b sd sw ne nw nd u
  show ?thesis by simp
qed

text \<open>
  The claim as worded, for every environment that the listing reports with a status
  other than \<open>Running\<close>, fails on a machine where both backends hold an environment
  named \<open>x\<close>, the Multipass instance running and the LXD container stopped. The
  listing reports the LXD record as \<open>Stopped\<close>; \<^verbatim>\<open>open_shell\<close> resolves \<open>x\<close> to
  the Multipass record, probes \<^verbatim>\<open>gnome-terminal\<close>, spawns it on
  \<^verbatim>\<open>multipass shell x\<close> and returns normally.
\<close>

theorem open_shell_requires_running_counterexample:
  "list_environments (twin_sys ''Running'' ''Stopped'') fresh_state =
     (Inr [twin_env ''multipass'' ''Running'', twin_env ''lxd'' ''Stopped''],
      fresh_state\<lparr>trace := twin_listing\<rparr>)
   \<and> name (twin_env ''lxd'' ''Stopped'') = JStr ''x''
   \<and> status (twin_env ''lxd'' ''Stopped'') = ''Stopped''
   \<and> open_shell (twin_sys ''Running'' ''Stopped'') ''x'' fresh_state =
       (Inr (),
        fresh_state\<lparr>trace := twin_listing @
          [[''gnome-terminal'', ''--version''],
           [''gnome-terminal'', ''--'', ''bash'', ''-c'', ''multipass shell x; exec bash'']]\<rparr>)"
  by code_simp

section \<open>The container mount lister\<close>

text \<open>
  Claim C8. For every container name and every text that \<^verbatim>\<open>lxc config show\<close> prints,
  the container mount lister returns the empty list: the scan of the device section
  returns the list it started with; \<^verbatim>\<open>_get_lxd_mounts\<close> returns \<open>[]\<close> whenever the
  command has run, whatever it printed and also when it failed or was missing (only
  when the command could not be run at all, for a name with a NUL character, for lack of
  permission or for output that is not text, does the call raise instead); it never
  returns anything but \<open>[]\<close>; and in every list that \<^verbatim>\<open>list_environments\<close> returns,
  each record of the LXD backend has no mounts.
\<close>

theorem lxd_mounts_always_empty:
  "lxd_scan (split_nl out) False None [] = []
   \<and> (nul_free n \<and> respond y (trace s) [''lxc'', ''config'', ''show'', n] \<noteq> Denied
        \<and> (\<forall>ok. respond y (trace s) [''lxc'', ''config'', ''show'', n] \<noteq> Undecodable ok) \<longrightarrow>
       fst (get_lxd_mounts y (JStr n) s) = Inr [])
   \<and> (\<forall>ms t. get_lxd_mounts y nm s = (Inr ms, t) \<longrightarrow> ms = [])
   \<and> (list_environments y s = (Inr envs, s') \<longrightarrow> (\<forall>e\<in>set envs. backend e = ''lxd'' \<longrightarrow> mounts e = []))"
proof (intro conjI impI allI)
  show "lxd_scan (split_nl out) False None [] = []" by (rule lxd_scan_id)
next
  assume a: "nul_free n \<and> respond y (trace s) [''lxc'', ''config'', ''show'', n] \<noteq> Denied
        \<and> (\<forall>ok. respond y (trace s) [''lxc'', ''config'', ''show'', n] \<noteq> Undecodable ok)"
  then have "\<not> has_nul [''lxc'', ''config'', ''show'', n]" by simp
  from run_command_no_nul[OF this, of y s] a
  show "fst (get_lxd_mounts y (JStr n) s) = Inr []"
    by (cases "respond y (trace s) [''lxc'', ''config'', ''show'', n]")
       (auto simp: get_lxd_mounts_def lxd_scan_id)
next
  fix ms t assume "get_lxd_mounts y nm s = (Inr ms, t)"
  then show "ms = []" by (rule get_lxd_mounts_empty)
next
  assume "list_environments y s = (Inr envs, s')"
  from list_environments_inv[OF this, of "\<lambda>e. backend e = ''lxd'' \<longrightarrow> mounts e = []"]
  show "\<forall>e\<in>set envs. backend e = ''lxd'' \<longrightarrow> mounts e = []"
    using mp_env_fields lxd_env_fields by fastforce
qed

theorem lxd_mounts_always_empty_witness:
  "list_environments (sample_sys [] []) sample_state =
     (Inr [sample_dev, sample_web], sample_state\<lparr>trace := listing_commands\<rparr>)
   \<and> backend sample_web = ''lxd'' \<and> mounts sample_web = []
   \<and> nul_free ''web''
   \<and> respond (sample_sys [] []) (trace sample_state) [''lxc'', ''config'', ''show'', ''web''] =
       Out sample_config_show
   \<and> fst (get_lxd_mounts (sample_sys [] []) (JStr ''web'') sample_state) = Inr []
   \<and> lxd_scan (split_nl sample_config_show) False None [] = []"
proof -
  let ?W = "sample_sys [] []"
  have h: "list_environments ?W sample_state =
             (Inr [sample_dev, sample_web], sample_state\<lparr>trace := listing_commands\<rparr>)"
    by code_simp
  have b: "backend sample_web = ''lxd''"
    by (simp add: sample_web_def)
  have n: "nul_free ''web''" by (simp add: nul_free_def)
  have r: "respond ?W (trace sample_state) [''lxc'', ''config'', ''show'', ''web''] =
             Out sample_config_show"
    by code_simp
  note T = lxd_mounts_always_empty
         [of sample_config_show "''web''" ?W sample_state "JStr ''web''"
             "[sample_dev, sample_web]" "sample_state\<lparr>trace := listing_commands\<rparr>"]
  from conjunct1[OF T] have sc: "lxd_scan (split_nl sample_config_show) False None [] = []" .
  from conjunct1[OF conjunct2[OF T]] n r
  have g: "fst (get_lxd_mounts ?W (JStr ''web'') sample_state) = Inr []" by simp
  from mp[OF conjunct2[OF conjunct2[OF conjunct2[OF T]]] h] b
  have m: "mounts sample_web = []" by simp
  show ?thesis
    by (intro conjI) (rule h b m n r g sc)+
qed

section \<open>Start, stop and delete are the backend's own commands\<close>

text \<open>
  Claim C9. Let the name be listed and \<open>ev\<close> be the record it resolves to; its backend
  is Multipass (program \<open>multipass\<close>) or LXD (program \<open>lxc\<close>). Starting an environment
  that is not reported \<open>Running\<close> dispatches, after the listing, the single command
  \<open>start\<close> of that program with the name, and succeeds exactly when the command exits
  with status 0; stopping one that is not reported \<open>Stopped\<close> does the same with
  \<open>stop\<close>. Deleting dispatches the commands of \<open>delete_commands\<close> in order, each only
  when the one before it has succeeded: a stop when the environment is reported
  \<open>Running\<close>, then \<open>delete\<close> with the name, then, on Multipass only, \<open>purge\<close>. So
  the purge is dispatched exactly when the backend is Multipass and the delete command
  (and the stop before it, if any) has succeeded.
\<close>

theorem lifecycle_maps_to_backend_primitives:
  assumes "list_environments y s = (Inr envs, s1)" and "find_env n envs = Some ev"
  shows "(backend ev = ''multipass'' \<and> backend_tool (backend ev) = ''multipass''
          \<or> backend ev = ''lxd'' \<and> backend_tool (backend ev) = ''lxc'')
       \<and> (status ev \<noteq> ''Running'' \<longrightarrow>
            trace (snd (start_environment y n s)) = trace s1 @ [[backend_tool (backend ev), ''start'', n]]
            \<and> (fst (start_environment y n s) = Inr () \<longleftrightarrow>
                 (\<exists>out. respond y (trace s1) [backend_tool (backend ev), ''start'', n] = Out out)))
       \<and> (status ev \<noteq> ''Stopped'' \<longrightarrow>
            trace (snd (stop_environment y n s)) = trace s1 @ [[backend_tool (backend ev), ''stop'', n]]
            \<and> (fst (stop_environment y n s) = Inr () \<longleftrightarrow>
                 (\<exists>out. respond y (trace s1) [backend_tool (backend ev), ''stop'', n] = Out out)))
       \<and> trace (snd (delete_environment y n s)) =
            trace s1 @ dispatched y (trace s1) (delete_commands ev n)
       \<and> ([''multipass'', ''purge''] \<in> set (dispatched y (trace s1) (delete_commands ev n)) \<longleftrightarrow>
            backend ev = ''multipass'' \<and>
            all_succeed y (trace s1)
              ((if status ev = ''Running'' then [[''multipass'', ''stop'', n]] else []) @
               [[''multipass'', ''delete'', n]]))"
proof (intro conjI)
  show tool: "backend ev = ''multipass'' \<and> backend_tool (backend ev) = ''multipass''
          \<or> backend ev = ''lxd'' \<and> backend_tool (backend ev) = ''lxc''"
    using assms by (rule listed_tool)
  show "status ev \<noteq> ''Running'' \<longrightarrow>
            trace (snd (start_environment y n s)) = trace s1 @ [[backend_tool (backend ev), ''start'', n]]
            \<and> (fst (start_environment y n s) = Inr () \<longleftrightarrow>
                 (\<exists>out. respond y (trace s1) [backend_tool (backend ev), ''start'', n] = Out out))"
  proof
    assume "status ev \<noteq> ''Running''"
    from start_environment_dispatch[OF assms this] tool found_name[OF assms]
    show "trace (snd (start_environment y n s)) = trace s1 @ [[backend_tool (backend ev), ''start'', n]]
            \<and> (fst (start_environment y n s) = Inr () \<longleftrightarrow>
                 (\<exists>out. respond y (trace s1) [backend_tool (backend ev), ''start'', n] = Out out))"
      by (auto simp: rewrap_run_command split: response.splits)
  qed
  show "status ev \<noteq> ''Stopped'' \<longrightarrow>
            trace (snd (stop_environment y n s)) = trace s1 @ [[backend_tool (backend ev), ''stop'', n]]
            \<and> (fst (stop_environment y n s) = Inr () \<longleftrightarrow>
                 (\<exists>out. respond y (trace s1) [backend_tool (backend ev), ''stop'', n] = Out out))"
  proof
    assume "status ev \<noteq> ''Stopped''"
    from stop_environment_dispatch[OF assms this] tool found_name[OF assms]
    show "trace (snd (stop_environment y n s)) = trace s1 @ [[backend_tool (backend ev), ''stop'', n]]
            \<and> (fst (stop_environment y n s) = Inr () \<longleftrightarrow>
                 (\<exists>out. respond y (trace s1) [backend_tool (backend ev), ''stop'', n] = Out out))"
      by (auto simp: rewrap_run_command split: response.splits)
  qed
  show "trace (snd (delete_environment y n s)) =
            trace s1 @ dispatched y (trace s1) (delete_commands ev n)"
    using assms by (rule delete_environment_trace)
  from tool have "backend ev = ''multipass'' \<or> backend ev = ''lxd''" by blast
  then show "[''multipass'', ''purge''] \<in> set (dispatched y (trace s1) (delete_commands ev n)) \<longleftrightarrow>
            backend ev = ''multipass'' \<and>
            all_succeed y (trace s1)
              ((if status ev = ''Running'' then [[''multipass'', ''stop'', n]] else []) @
               [[''multipass'', ''delete'', n]])"
    by (rule purge_dispatched)
qed

text \<open>
  In the sample installation: starting the stopped container, stopping the running
  instance, deleting the instance (with and without a failing delete command) and
  deleting the container.
\<close>

theorem lifecycle_maps_to_backend_primitives_witness:
  "list_environments (sample_sys [] []) sample_state =
     (Inr [sample_dev, sample_web], sample_state\<lparr>trace := listing_commands\<rparr>)
   \<and> find_env ''web'' [sample_dev, sample_web] = Some sample_web
   \<and> find_env ''dev'' [sample_dev, sample_web] = Some sample_dev
   \<and> status sample_web \<noteq> ''Running''
   \<and> trace (snd (start_environment (sample_sys [] []) ''web'' sample_state)) =
       listing_commands @ [[''lxc'', ''start'', ''web'']]
   \<and> fst (start_environment (sample_sys [] []) ''web'' sample_state) = Inr ()
   \<and> status sample_dev \<noteq> ''Stopped''
   \<and> trace (snd (stop_environment (sample_sys [] []) ''dev'' sample_state)) =
       listing_commands @ [[''multipass'', ''stop'', ''dev'']]
   \<and> fst (stop_environment (sample_sys [] []) ''dev'' sample_state) = Inr ()
   \<and> trace (snd (delete_environment (sample_sys [] []) ''dev'' sample_state)) =
       listing_commands @
         [[''multipass'', ''stop'', ''dev''], [''multipass'', ''delete'', ''dev''],
          [''multipass'', ''purge'']]
   \<and> trace (snd (delete_environment (sample_sys [[''multipass'', ''delete'', ''dev'']] [])
                     ''dev'' sample_state)) =
       listing_commands @ [[''multipass'', ''stop'', ''dev''], [''multipass'', ''delete'', ''dev'']]
   \<and> trace (snd (delete_environment (sample_sys [] []) ''web'' sample_state)) =
       listing_commands @ [[''lxc'', ''delete'', ''web'']]"
proof -
  let ?W = "sample_sys [] []"
  let ?F = "sample_sys [[''multipass'', ''delete'', ''dev'']] []"
  let ?S1 = "sample_state\<lparr>trace := listing_commands\<rparr>"
  have hw: "list_environments ?W sample_state = (Inr [sample_dev, sample_web], ?S1)"
    by code_simp
  have hf: "list_environments ?F sample_state = (Inr [sample_dev, sample_web], ?S1)"
    by code_simp
  have d: "find_env ''dev'' [sample_dev, sample_web] = Some sample_dev"
    by (simp add: find_env_def sample_dev_def)
  have w: "find_env ''web'' [sample_dev, sample_web] = Some sample_web"
    by (simp add: find_env_def sample_dev_def sample_web_def)
  have sw: "status sample_web \<noteq> ''Running''" by (simp add: sample_web_def)
  have sd: "status sample_dev \<noteq> ''Stopped''" by (simp add: sample_dev_def)
  have tr: "trace ?S1 = listing_commands" by simp
  have tw: "backend_tool (backend sample_web) = ''lxc''" by code_simp
  have td: "backend_tool (backend sample_dev) = ''multipass''" by code_simp
  have ow: "respond ?W listing_commands [''lxc'', ''start'', ''web''] = Out []" by code_simp
  have od: "respond ?W listing_commands [''multipass'', ''stop'', ''dev''] = Out []" by code_simp
  have dd: "dispatched ?W listing_commands (delete_commands sample_dev ''dev'') =
              [[''multipass'', ''stop'', ''dev''], [''multipass'', ''delete'', ''dev''],
               [''multipass'', ''purge'']]"
    by code_simp
  have df: "dispatched ?F listing_commands (delete_commands sample_dev ''dev'') =
              [[''multipass'', ''stop'', ''dev''], [''multipass'', ''delete'', ''dev'']]"
    by code_simp
  have dw: "dispatched ?W listing_commands (delete_commands sample_web ''web'') =
              [[''lxc'', ''delete'', ''web'']]"
    by code_simp
  note TWw = lifecycle_maps_to_backend_primitives[OF hw w]
  note TWd = lifecycle_maps_to_backend_primitives[OF hw d]
  note TFd = lifecycle_maps_to_backend_primitives[OF hf d]
  from mp[OF conjunct1[OF conjunct2[OF TWw]] sw] tr tw ow
  have r1: "trace (snd (start_environment ?W ''web'' sample_state)) =
              listing_commands @ [[''lxc'', ''start'', ''web'']]"
    and r2: "fst (start_environment ?W ''web'' sample_state) = Inr ()"
    by simp_all
  from mp[OF conjunct1[OF conjunct2[OF conjunct2[OF TWd]]] sd] tr td od
  have r3: "trace (snd (stop_environment ?W ''dev'' sample_state)) =
              listing_commands @ [[''multipass'', ''stop'', ''dev'']]"
    and r4: "fst (stop_environment ?W ''dev'' sample_state) = Inr ()"
    by simp_all
  from conjunct1[OF conjunct2[OF conjunct2[OF conjunct2[OF TWd]]]] tr dd
  have r5: "trace (snd (delete_environment ?W ''dev'' sample_state)) =
              listing_commands @
                [[''multipass'', ''stop'', ''dev''], [''multipass'', ''delete'', ''dev''],
                 [''multipass'', ''purge'']]"
    by simp
  from conjunct1[OF conjunct2[OF conjunct2[OF conjunct2[OF TFd]]]] tr df
  have r6: "trace (snd (delete_environment ?F ''dev'' sample_state)) =
              listing_commands @ [[''multipass'', ''stop'', ''dev''], [''multipass'', ''delete'', ''dev'']]"
    by simp
  from conjunct1[OF conjunct2[OF conjunct2[OF conjunct2[OF TWw]]]] tr dw
  have r7: "trace (snd (delete_environment ?W ''web'' sample_state)) =
              listing_commands @ [[''lxc'', ''delete'', ''web'']]"
    by simp
  show ?thesis
    by (intro conjI) (rule hw w d sw r1 r2 sd r3 r4 r5 r6 r7)+
qed

section \<open>A backend that is neither Multipass nor LXD\<close>

text \<open>
  Claim C10. For a backend string other than \<open>multipass\<close> and \<open>lxd\<close> the availability
  check answers \<open>True\<close> and dispatches nothing. So \<^verbatim>\<open>create_environment\<close> with such
  a backend, a non-empty name and a template of the table gets past the check and fails
  in the provisioning branch: the error is the creation failure wrapping the
  unsupported-backend error, not the unavailable-backend error, and no command has been
  dispatched and nothing written.
\<close>

theorem unsupported_backend_passes_probe:
  assumes "b \<noteq> ''multipass''" and "b \<noteq> ''lxd''"
  shows "check_backend_available y b s = (Inr True, s)
       \<and> (cfg_backend c = b \<and> cfg_name c \<noteq> [] \<and> get_template (templates y) (cfg_template c) \<noteq> None \<longrightarrow>
            create_environment y c s =
              (Inl (RuntimeError (FailedToCreate (ValueError (UnsupportedBackend b)))), s))"
  using assms
  by (auto simp: check_backend_available_def create_environment_def provision_def and_then_def)

theorem unsupported_backend_passes_probe_witness:
  "''docker'' \<noteq> ''multipass'' \<and> ''docker'' \<noteq> ''lxd''
   \<and> check_backend_available (sample_sys [] []) ''docker'' sample_state = (Inr True, sample_state)
   \<and> get_template (templates (sample_sys [] [])) ''ubuntu-basic'' \<noteq> None
   \<and> create_environment (sample_sys [] [])
         \<lparr>cfg_name = ''box'', cfg_backend = ''docker'', cfg_template = ''ubuntu-basic'',
          cfg_mounts = [], cfg_resources = \<lparr>cpus = Some 2, memory = Some ''2048M'', disk = Some ''10G''\<rparr>\<rparr>
         sample_state =
       (Inl (RuntimeError (FailedToCreate (ValueError (UnsupportedBackend ''docker'')))), sample_state)"
proof -
  have a: "''docker'' \<noteq> ''multipass''" and b: "''docker'' \<noteq> ''lxd''" by simp_all
  have t: "get_template (templates (sample_sys [] [])) ''ubuntu-basic'' \<noteq> None"
    by (simp add: get_template_def sample_sys_def)
  from unsupported_backend_passes_probe[OF a b, of "sample_sys [] []" sample_state
         "\<lparr>cfg_name = ''box'', cfg_backend = ''docker'', cfg_template = ''ubuntu-basic'',
          cfg_mounts = [], cfg_resources = \<lparr>cpus = Some 2, memory = Some ''2048M'', disk = Some ''10G''\<rparr>\<rparr>"]
       t
  show ?thesis by simp
qed

end
